theory Spec2Isabelle
  imports Complex_Main "HOL-Library.AList" "HOL-Library.Sublist" "HOL-Library.Log_Nat"
begin

section \<open>Conventions of the embedding\<close>

text \<open>
  The development embeds the logic-bearing modules of the CBT chatbot: the flow catalog and the
  question styling of \<^verbatim>\<open>app_simple.py\<close>, the step counts declared in
  \<^verbatim>\<open>config/settings.py\<close>, the response generator of
  \<^verbatim>\<open>config/personalities.py\<close>, the dialogue state machine of
  \<^verbatim>\<open>models/chatbot.py\<close>, the validator and analyzer of
  \<^verbatim>\<open>utils/response_processor.py\<close> and the journal generator of
  \<^verbatim>\<open>utils/journal_generator.py\<close>.

  \<^item> A Python \<^verbatim>\<open>str\<close> is a \<^typ>\<open>string\<close>. A character of a text that the
    program inspects (user input) is a code point below 256, and the character classes below
    (\<^verbatim>\<open>isspace\<close>, \<^verbatim>\<open>lower\<close>, the regular-expression classes) are Python's on that range.
    String constants are transcribed from the source files; a character of a constant outside
    ASCII is written as the bytes of its UTF-8 encoding. The program only stores and
    concatenates those constants.
  \<^item> A Python exception is a value of \<open>py_error\<close>; a function that can raise returns
    \<open>py_error + 'a\<close>, and a method that can raise after it has assigned fields returns the
    object together with such a sum.
  \<^item> A \<^verbatim>\<open>dict\<close> whose order can be observed is an association list updated with
    \<^const>\<open>AList.update\<close>, which overwrites in place and appends new keys, as Python does.
  \<^item> \<^verbatim>\<open>datetime.now()\<close> is not modelled: transcript entries carry no time stamp, and
    the journal takes the two formatted dates as arguments.
\<close>

datatype py_error = KeyError | TypeError | IndexError | ValueError | ZeroDivisionError

section \<open>Flow catalog\<close>

text \<open>A step of a flow: the dictionaries \<^verbatim>\<open>{"id": .., "text": .., "category": ..}\<close>.\<close>

record question =
  q_id :: string
  q_text :: string
  q_category :: string

text \<open>An entry of \<^verbatim>\<open>CBT_CONFIG\<close>.\<close>

record cbt_config =
  total_steps :: nat
  core_categories :: "string list"

text \<open>\<^verbatim>\<open>CBT_FLOWS\<close> of \<^verbatim>\<open>app_simple.py\<close> and \<^verbatim>\<open>CBT_CONFIG\<close> of
  \<^verbatim>\<open>config/settings.py\<close>.\<close>

definition stress_flow :: "question list" where
  \<open>stress_flow =
   [\<lparr>q_id = ''situation'',
      q_text = ''What happened recently that triggered your stress?'',
      q_category = ''Situation/Trigger''\<rparr>,
    \<lparr>q_id = ''specific_event'',
      q_text = ''Was there a specific event, deadline, interaction, or change?'',
      q_category = ''Situation/Trigger''\<rparr>,
    \<lparr>q_id = ''personal_stress'',
      q_text = ''What made this situation feel stressful to you personally?'',
      q_category = ''Situation/Trigger''\<rparr>,
    \<lparr>q_id = ''similar_before'',
      q_text = ''Have you faced a similar situation before? What happened then?'',
      q_category = ''Situation/Trigger''\<rparr>,
    \<lparr>q_id = ''thoughts_moment'',
      q_text = ''What went through your mind at the moment you started feeling stressed?'',
      q_category = ''Thoughts''\<rparr>,
    \<lparr>q_id = ''hot_thought'',
      q_text = ''What was the most distressing or believable thought? (Your "hot thought")'',
      q_category = ''Thoughts''\<rparr>,
    \<lparr>q_id = ''emotions'',
      q_text = ''What emotions did you feel? (e.g., anxious, overwhelmed, frustrated, helpless)'',
      q_category = ''Mood''\<rparr>,
    \<lparr>q_id = ''mood_rating'',
      q_text = (''Rate each mood from 0'' @ [CHR 0xE2, CHR 0x80, CHR 0x93] @ ''100%.''),
      q_category = ''Mood''\<rparr>,
    \<lparr>q_id = ''behaviors'',
      q_text = ''What did you do (or avoid doing) as a result of feeling stressed?'',
      q_category = ''Behaviors''\<rparr>,
    \<lparr>q_id = ''avoidance'',
      q_text = ''Did you procrastinate, shut down, lash out, overwork, or escape?'',
      q_category = ''Behaviors''\<rparr>,
    \<lparr>q_id = ''physical'',
      q_text = ''What physical symptoms did you notice? (e.g., muscle tension, headache, fatigue, nausea, racing heart)'',
      q_category = ''Physical Reactions''\<rparr>,
    \<lparr>q_id = ''assumptions'',
      q_text = ''What assumptions were you making about yourself, others, or the situation?'',
      q_category = ''Automatic Thoughts''\<rparr>,
    \<lparr>q_id = ''distortions'',
      q_text = ''Are you using any of these common thinking traps? (Catastrophizing, All-or-Nothing, Mind Reading, Overgeneralization, Shoulds/Musts)'',
      q_category = ''Cognitive Distortions''\<rparr>,
    \<lparr>q_id = ''evidence_for'',
      q_text = ''What is the factual evidence that supports this thought?'',
      q_category = ''Examine Evidence''\<rparr>,
    \<lparr>q_id = ''evidence_against'',
      q_text = ''What is the evidence that challenges or contradicts this thought?'',
      q_category = ''Examine Evidence''\<rparr>,
    \<lparr>q_id = ''friend_advice'',
      q_text = ''What would you say to a friend if they were thinking the same thing in this situation?'',
      q_category = ''Examine Evidence''\<rparr>,
    \<lparr>q_id = ''balanced_thought'',
      q_text = ''Based on the evidence, what's a more realistic or helpful way of viewing this situation?'',
      q_category = ''Balanced Thought''\<rparr>,
    \<lparr>q_id = ''believability'',
      q_text = (''How believable is this new thought to you right now? (0'' @ [CHR 0xE2, CHR 0x80, CHR 0x93] @ ''100%)''),
      q_category = ''Balanced Thought''\<rparr>,
    \<lparr>q_id = ''emotional_change'',
      q_text = ''What would change for you emotionally or behaviorally if you believed this new thought more often?'',
      q_category = ''Balanced Thought''\<rparr>,
    \<lparr>q_id = ''small_action'',
      q_text = ''What is one small action you could take that reflects this new thought?'',
      q_category = ''Balanced Thought''\<rparr>,
    \<lparr>q_id = ''deeper_belief'',
      q_text = ''Is there a deeper belief making this harder to cope with? (e.g., "If I don't achieve, I'm worthless")'',
      q_category = ''Deeper Beliefs''\<rparr>,
    \<lparr>q_id = ''belief_origin'',
      q_text = (''Where do you think this belief came from'' @ [CHR 0xE2, CHR 0x80, CHR 0x94] @ ''family, school, culture, or past experiences?''),
      q_category = ''Deeper Beliefs''\<rparr>,
    \<lparr>q_id = ''belief_influence'',
      q_text = ''How has this belief influenced your life over time?'',
      q_category = ''Deeper Beliefs''\<rparr>,
    \<lparr>q_id = ''belief_meaning_self'',
      q_text = ''If this belief were true, what would it mean about you?'',
      q_category = ''Deeper Beliefs''\<rparr>,
    \<lparr>q_id = ''belief_meaning_others'',
      q_text = ''What would it mean about others?'',
      q_category = ''Deeper Beliefs''\<rparr>,
    \<lparr>q_id = ''belief_meaning_world'',
      q_text = ''What would it mean about the world or your future?'',
      q_category = ''Deeper Beliefs''\<rparr>,
    \<lparr>q_id = ''helpful_action'',
      q_text = ''What's one small, specific action you can take this week to reduce your stress?'',
      q_category = ''Action Planning''\<rparr>,
    \<lparr>q_id = ''action_steps'',
      q_text = ''List a few manageable steps to help you follow through.'',
      q_category = ''Action Planning''\<rparr>,
    \<lparr>q_id = ''control_parts'',
      q_text = ''What parts of this situation are within your control, and what parts are outside of your control?'',
      q_category = ''Action Planning''\<rparr>,
    \<lparr>q_id = ''past_strategies'',
      q_text = ''What strengths or past strategies have helped you manage similar stress before?'',
      q_category = ''Action Planning''\<rparr>,
    \<lparr>q_id = ''stress_meaning'',
      q_text = (''Is your stress telling you something meaningful'' @ [CHR 0xE2, CHR 0x80, CHR 0x94] @ ''like a personal value or unmet need?''),
      q_category = ''Action Planning''\<rparr>,
    \<lparr>q_id = ''belief_review'',
      q_text = ''Review the negative belief you uncovered. Is this a belief you've noticed coming up often in your life?'',
      q_category = ''Healthier Beliefs''\<rparr>,
    \<lparr>q_id = ''belief_outcome'',
      q_text = ''When you challenged this belief, did the outcome match your prediction? Did anything positive or unexpected happen?'',
      q_category = ''Healthier Beliefs''\<rparr>,
    \<lparr>q_id = ''new_belief'',
      q_text = ''What new belief would you like to adopt about yourself, others, or life?'',
      q_category = ''Healthier Beliefs''\<rparr>,
    \<lparr>q_id = ''belief_evidence'',
      q_text = ''Write down 10 small pieces of evidence that support this new belief.'',
      q_category = ''Healthier Beliefs''\<rparr>]\<close>

definition anxiety_flow :: "question list" where
  \<open>anxiety_flow =
   [\<lparr>q_id = ''situation'',
      q_text = ''What recent situation or event made you feel anxious?'',
      q_category = ''Situation/Trigger''\<rparr>,
    \<lparr>q_id = ''anticipation'',
      q_text = ''Was there something you were anticipating, avoiding, or fearing?'',
      q_category = ''Situation/Trigger''\<rparr>,
    \<lparr>q_id = ''thoughts'',
      q_text = ''What thoughts were running through your mind at that time?'',
      q_category = ''Thoughts''\<rparr>,
    \<lparr>q_id = ''hot_thought'',
      q_text = ''What was the most distressing or believable thought? ("hot thought")'',
      q_category = ''Thoughts''\<rparr>,
    \<lparr>q_id = ''fear'',
      q_text = ''What were you afraid might happen?'',
      q_category = ''Thoughts''\<rparr>,
    \<lparr>q_id = ''emotions'',
      q_text = ''What emotions did you feel? (e.g., nervous, scared, panicky, uneasy)'',
      q_category = ''Emotions''\<rparr>,
    \<lparr>q_id = ''emotion_intensity'',
      q_text = (''Rate the intensity of each emotion from 0'' @ [CHR 0xE2, CHR 0x80, CHR 0x93] @ ''100%.''),
      q_category = ''Emotions''\<rparr>,
    \<lparr>q_id = ''behaviors'',
      q_text = (''What did you do'' @ [CHR 0xE2, CHR 0x80, CHR 0x94] @ ''or avoid doing'' @ [CHR 0xE2, CHR 0x80, CHR 0x94] @ ''because of the anxiety?''),
      q_category = ''Behaviors''\<rparr>,
    \<lparr>q_id = ''safety_behaviors'',
      q_text = ''Did you engage in safety behaviors (e.g., checking, avoiding, escaping, seeking reassurance)?'',
      q_category = ''Behaviors''\<rparr>,
    \<lparr>q_id = ''physical'',
      q_text = ''What physical symptoms did you notice? (e.g., tight chest, rapid heartbeat, sweating, dizziness, nausea)'',
      q_category = ''Physical Reactions''\<rparr>,
    \<lparr>q_id = ''predictions'',
      q_text = ''What did you think would go wrong? What's the worst-case scenario your mind predicted?'',
      q_category = ''Anxious Predictions''\<rparr>,
    \<lparr>q_id = ''thinking_traps'',
      q_text = ''Are you experiencing thinking patterns like catastrophizing, fortune telling, mind reading, overgeneralizing, intolerance of uncertainty, or shoulds/musts?'',
      q_category = ''Thinking Traps''\<rparr>,
    \<lparr>q_id = ''coping_strategies'',
      q_text = ''What do you usually do to cope with anxiety (e.g., avoid, seek reassurance, prepare excessively)?'',
      q_category = ''Safety Behaviors''\<rparr>,
    \<lparr>q_id = ''strategy_effectiveness'',
      q_text = (''Do these strategies reduce anxiety in the long run'' @ [CHR 0xE2, CHR 0x80, CHR 0x94] @ ''or maintain it?''),
      q_category = ''Safety Behaviors''\<rparr>,
    \<lparr>q_id = ''evidence_for'',
      q_text = ''What is the actual evidence that supports your anxious thought or prediction?'',
      q_category = ''Examine Evidence''\<rparr>,
    \<lparr>q_id = ''evidence_against'',
      q_text = ''What is the evidence that contradicts it or offers another explanation?'',
      q_category = ''Examine Evidence''\<rparr>,
    \<lparr>q_id = ''friend_perspective'',
      q_text = ''If a friend had this thought, what would you say to help them gain perspective?'',
      q_category = ''Examine Evidence''\<rparr>,
    \<lparr>q_id = ''balanced_thought'',
      q_text = ''What's a more balanced way to think about this situation?'',
      q_category = ''Balanced Thought''\<rparr>,
    \<lparr>q_id = ''belief_rating'',
      q_text = (''On a scale of 0'' @ [CHR 0xE2, CHR 0x80, CHR 0x93] @ ''100%, how much do you believe this new thought?''),
      q_category = ''Balanced Thought''\<rparr>,
    \<lparr>q_id = ''avoidance'',
      q_text = ''Is there something you've been avoiding due to fear?'',
      q_category = ''Facing Fears''\<rparr>,
    \<lparr>q_id = ''small_step'',
      q_text = ''What is one small step you could take to face this fear gradually?'',
      q_category = ''Facing Fears''\<rparr>,
    \<lparr>q_id = ''coping_strategy'',
      q_text = ''What calming strategy might help you in similar situations? (e.g., breathing, grounding, mindfulness)'',
      q_category = ''Coping Strategy''\<rparr>,
    \<lparr>q_id = ''different_response'',
      q_text = ''What could you do differently next time to feel more in control?'',
      q_category = ''Coping Strategy''\<rparr>,
    \<lparr>q_id = ''deeper_belief'',
      q_text = ''Is there a deeper belief behind your anxiety? (e.g., "If I'm not in control, something bad will happen")'',
      q_category = ''Underlying Beliefs''\<rparr>,
    \<lparr>q_id = ''belief_origin'',
      q_text = (''Where might this belief come from'' @ [CHR 0xE2, CHR 0x80, CHR 0x94] @ ''past experiences, upbringing, messages from others?''),
      q_category = ''Underlying Beliefs''\<rparr>,
    \<lparr>q_id = ''belief_impact'',
      q_text = ''How has this belief shaped your reactions and decisions over time?'',
      q_category = ''Underlying Beliefs''\<rparr>,
    \<lparr>q_id = ''new_belief'',
      q_text = ''What is a new, empowering belief you'd like to hold? (e.g., "Uncertainty is uncomfortable but tolerable")'',
      q_category = ''New Beliefs''\<rparr>,
    \<lparr>q_id = ''supporting_evidence'',
      q_text = ''List 10 small experiences or facts from your life that support this new belief.'',
      q_category = ''New Beliefs''\<rparr>,
    \<lparr>q_id = ''life_change'',
      q_text = ''What would change in your life if you believed this more often?'',
      q_category = ''New Beliefs''\<rparr>,
    \<lparr>q_id = ''key_learning'',
      q_text = ''What's one thing you learned from this reflection that you want to remember?'',
      q_category = ''Progress''\<rparr>,
    \<lparr>q_id = ''weekly_action'',
      q_text = ''What can you do this week to reinforce your progress?'',
      q_category = ''Progress''\<rparr>]\<close>

definition lowMood_flow :: "question list" where
  \<open>lowMood_flow =
   [\<lparr>q_id = ''trigger'',
      q_text = ''What situation, interaction, or thought triggered your low mood recently?'',
      q_category = ''Situation/Trigger''\<rparr>,
    \<lparr>q_id = ''familiarity'',
      q_text = ''Was this a familiar or recurring type of situation for you?'',
      q_category = ''Situation/Trigger''\<rparr>,
    \<lparr>q_id = ''thoughts'',
      q_text = ''What was going through your mind at that moment?'',
      q_category = ''Thoughts''\<rparr>,
    \<lparr>q_id = ''hot_thought'',
      q_text = ''What was the most painful or convincing thought? ("hot thought")'',
      q_category = ''Thoughts''\<rparr>,
    \<lparr>q_id = ''meaning'',
      q_text = ''What did that thought mean about you, your life, or your future?'',
      q_category = ''Thoughts''\<rparr>,
    \<lparr>q_id = ''emotions'',
      q_text = ''What emotions did you feel? (e.g., sad, hopeless, empty, guilty, numb)'',
      q_category = ''Moods''\<rparr>,
    \<lparr>q_id = ''mood_rating'',
      q_text = (''Rate each mood from 0'' @ [CHR 0xE2, CHR 0x80, CHR 0x93] @ ''100%.''),
      q_category = ''Moods''\<rparr>,
    \<lparr>q_id = ''behaviors'',
      q_text = (''What did you do'' @ [CHR 0xE2, CHR 0x80, CHR 0x94] @ ''or avoid doing'' @ [CHR 0xE2, CHR 0x80, CHR 0x94] @ ''because you felt this way?''),
      q_category = ''Behaviors''\<rparr>,
    \<lparr>q_id = ''withdrawal'',
      q_text = ''Did you withdraw, isolate, stop doing enjoyable or necessary activities?'',
      q_category = ''Behaviors''\<rparr>,
    \<lparr>q_id = ''physical'',
      q_text = ''What physical symptoms did you notice? (e.g., fatigue, heaviness, sleep or appetite changes, slowed movement)'',
      q_category = ''Physical Reactions''\<rparr>,
    \<lparr>q_id = ''negative_beliefs'',
      q_text = ''What were you telling yourself about your worth, future, or abilities? (e.g., "I'm a failure," "Nothing will change")'',
      q_category = ''Core Negative Beliefs''\<rparr>,
    \<lparr>q_id = ''thinking_errors'',
      q_text = ''Were you making thinking errors like all-or-nothing thinking, mental filter, overgeneralization, labeling, or hopelessness?'',
      q_category = ''Thinking Errors''\<rparr>,
    \<lparr>q_id = ''evidence_for'',
      q_text = ''What is the factual evidence that supports this thought?'',
      q_category = ''Examine Evidence''\<rparr>,
    \<lparr>q_id = ''evidence_against'',
      q_text = ''What evidence contradicts it or offers a different view?'',
      q_category = ''Examine Evidence''\<rparr>,
    \<lparr>q_id = ''friend_advice'',
      q_text = ''If a friend said this about themselves, what would you say to them?'',
      q_category = ''Examine Evidence''\<rparr>,
    \<lparr>q_id = ''balanced_perspective'',
      q_text = ''Based on the evidence, what's a more balanced or constructive way to view the situation or yourself?'',
      q_category = ''Balanced Perspective''\<rparr>,
    \<lparr>q_id = ''belief_strength'',
      q_text = (''How much do you believe this new thought (0'' @ [CHR 0xE2, CHR 0x80, CHR 0x93] @ ''100%)?''),
      q_category = ''Balanced Perspective''\<rparr>,
    \<lparr>q_id = ''recent_activities'',
      q_text = ''What activities (if any) did you do today or recently?'',
      q_category = ''Activity Review''\<rparr>,
    \<lparr>q_id = ''positive_activities'',
      q_text = ''Which activities gave you even a small sense of pleasure, accomplishment, or connection?'',
      q_category = ''Activity Review''\<rparr>,
    \<lparr>q_id = ''tomorrow_activity'',
      q_text = ''What is one small, meaningful activity you could do tomorrow that may improve your mood?'',
      q_category = ''Behavioral Activation''\<rparr>,
    \<lparr>q_id = ''obstacles'',
      q_text = (''What obstacles might make it hard to follow through'' @ [CHR 0xE2, CHR 0x80, CHR 0x94] @ ''and how could you handle them?''),
      q_category = ''Behavioral Activation''\<rparr>,
    \<lparr>q_id = ''deep_belief'',
      q_text = ''What belief do you hold about yourself that may be contributing to your mood? (e.g., "I'm not good enough")'',
      q_category = ''Deep-Seated Beliefs''\<rparr>,
    \<lparr>q_id = ''belief_source'',
      q_text = (''Where do you think that belief came from'' @ [CHR 0xE2, CHR 0x80, CHR 0x94] @ ''family, experiences, rejection, failure?''),
      q_category = ''Deep-Seated Beliefs''\<rparr>,
    \<lparr>q_id = ''belief_impact'',
      q_text = ''How has this belief impacted your life and relationships over time?'',
      q_category = ''Deep-Seated Beliefs''\<rparr>,
    \<lparr>q_id = ''new_belief'',
      q_text = ''What new belief would you like to hold about yourself? (e.g., "I have value regardless of what I achieve")'',
      q_category = ''Healthier Beliefs''\<rparr>,
    \<lparr>q_id = ''evidence_list'',
      q_text = ''List 10 small pieces of evidence or moments that support this new belief.'',
      q_category = ''Healthier Beliefs''\<rparr>,
    \<lparr>q_id = ''life_difference'',
      q_text = ''What would be different in your life if you believed this more deeply?'',
      q_category = ''Healthier Beliefs''\<rparr>,
    \<lparr>q_id = ''next_24_hours'',
      q_text = ''What's one thing you can do in the next 24 hours to support your mental health or lift your mood?'',
      q_category = ''Small Wins''\<rparr>,
    \<lparr>q_id = ''support'',
      q_text = ''Who or what could support you in doing this?'',
      q_category = ''Small Wins''\<rparr>,
    \<lparr>q_id = ''future_reminder'',
      q_text = ''What reminder would you like to give yourself next time your mood feels low?'',
      q_category = ''Future Resilience''\<rparr>]\<close>

definition CBT_FLOWS :: "(string \<times> question list) list" where
  \<open>CBT_FLOWS = [(''stress'', stress_flow), (''anxiety'', anxiety_flow), (''lowMood'', lowMood_flow)]\<close>

definition CBT_CONFIG :: "(string \<times> cbt_config) list" where
  \<open>CBT_CONFIG =
   [(''stress'', \<lparr>total_steps = 28,
      core_categories = [''Situation/Trigger'', ''Thoughts'', ''Mood'', ''Behaviors'', ''Physical Reactions'', ''Automatic Thoughts'', ''Cognitive Distortions'', ''Examine Evidence'', ''Balanced Thought'', ''Deeper Beliefs'', ''Action Planning'', ''Healthier Beliefs'']\<rparr>),
    (''anxiety'', \<lparr>total_steps = 30,
      core_categories = [''Situation/Trigger'', ''Thoughts'', ''Emotions'', ''Behaviors'', ''Physical Reactions'', ''Anxious Predictions'', ''Thinking Traps'', ''Safety Behaviors'', ''Examine Evidence'', ''Balanced Thought'', ''Facing Fears'', ''Coping Strategy'', ''Underlying Beliefs'', ''New Beliefs'', ''Progress'']\<rparr>),
    (''lowMood'', \<lparr>total_steps = 29,
      core_categories = [''Situation/Trigger'', ''Thoughts'', ''Moods'', ''Behaviors'', ''Physical Reactions'', ''Core Negative Beliefs'', ''Thinking Errors'', ''Examine Evidence'', ''Balanced Perspective'', ''Activity Review'', ''Behavioral Activation'', ''Deep-Seated Beliefs'', ''Healthier Beliefs'', ''Small Wins'', ''Future Resilience'']\<rparr>)]\<close>

section \<open>Python strings\<close>

text \<open>The code point of a character.\<close>

definition ord :: "char \<Rightarrow> nat" where
  "ord c = of_char c"

text \<open>\<^verbatim>\<open>str.isspace\<close> on one character: the code points 9 to 13, 28 to 32, 133 and 160.\<close>

definition isspace :: "char \<Rightarrow> bool" where
  "isspace c = ((9 \<le> ord c \<and> ord c \<le> 13) \<or> (28 \<le> ord c \<and> ord c \<le> 32) \<or> ord c = 133 \<or> ord c = 160)"

text \<open>\<^verbatim>\<open>str.lower\<close>: the letters A to Z and the capital letters 192 to 222 (without the
  multiplication sign 215) move up by 32.\<close>

definition lower_char :: "char \<Rightarrow> char" where
  "lower_char c =
     (if (65 \<le> ord c \<and> ord c \<le> 90) \<or> (192 \<le> ord c \<and> ord c \<le> 222 \<and> ord c \<noteq> 215)
      then char_of (ord c + 32) else c)"

definition lower :: "string \<Rightarrow> string" where
  "lower s = map lower_char s"

text \<open>\<^verbatim>\<open>str.strip()\<close> removes leading and trailing white space.\<close>

definition strip :: "string \<Rightarrow> string" where
  "strip s = rev (dropWhile isspace (rev (dropWhile isspace s)))"

text \<open>\<^verbatim>\<open>str.split()\<close> without arguments: the maximal runs of characters that are not white
  space. The first argument is the word being read.\<close>

fun split_from :: "string \<Rightarrow> string \<Rightarrow> string list" where
  "split_from cur [] = (if cur = [] then [] else [cur])"
| "split_from cur (c # cs) =
     (if isspace c then (if cur = [] then split_from [] cs else cur # split_from [] cs)
      else split_from (cur @ [c]) cs)"

definition split :: "string \<Rightarrow> string list" where
  "split s = split_from [] s"

text \<open>The operator \<^verbatim>\<open>in\<close> on two strings: \<open>needle in hay\<close>.\<close>

fun str_in :: "string \<Rightarrow> string \<Rightarrow> bool" where
  "str_in needle [] = (needle = [])"
| "str_in needle (c # cs) = (prefix needle (c # cs) \<or> str_in needle cs)"

text \<open>\<^verbatim>\<open>str(n)\<close> for a natural number, as an f-string prints it.\<close>

definition digit_char :: "nat \<Rightarrow> char" where
  "digit_char d = char_of (48 + d)"

fun str_nat :: "nat \<Rightarrow> string" where
  "str_nat n = (if n < 10 then [digit_char n] else str_nat (n div 10) @ [digit_char (n mod 10)])"

text \<open>\<^verbatim>\<open>str.endswith\<close>.\<close>

definition endswith :: "string \<Rightarrow> string \<Rightarrow> bool" where
  "endswith s t = suffix t s"

text \<open>Subscripting a list with an integer \<open>i\<close>: an index from \<open>- len\<close> up to \<open>- 1\<close>
  stands for \<open>len + i\<close>, and an index outside \<open>- len\<close> to \<open>len - 1\<close> raises.\<close>

definition py_index :: "'a list \<Rightarrow> int \<Rightarrow> py_error + 'a" where
  "py_index xs i =
     (if 0 \<le> i \<and> i < int (length xs) then Inr (xs ! nat i)
      else if i < 0 \<and> - int (length xs) \<le> i then Inr (xs ! nat (int (length xs) + i))
      else Inl IndexError)"

section \<open>Regular expressions\<close>

text \<open>
  The patterns of the program use literals, character classes, a class under \<^verbatim>\<open>*\<close> or
  \<^verbatim>\<open>+\<close>, sequence, alternation and the word boundary \<^verbatim>\<open>\b\<close>. A position in the
  subject is the character before it, if any, and the rest of the subject; a pattern maps a
  position to the positions where a match that starts there can end. \<^verbatim>\<open>re.search\<close>
  asks whether some start position has a match, which does not depend on the order in which
  the matcher of Python tries the alternatives.
\<close>

datatype regex =
  Lit string
| Cls "char \<Rightarrow> bool"
| StarCls "char \<Rightarrow> bool"
| PlusCls "char \<Rightarrow> bool"
| Seq regex regex
| Alt regex regex
| WordB

type_synonym position = "char option \<times> string"

text \<open>The class \<^verbatim>\<open>\w\<close>: letters, digits and other numeric characters, and the underscore.\<close>

definition is_word_char :: "char \<Rightarrow> bool" where
  "is_word_char c =
     ((48 \<le> ord c \<and> ord c \<le> 57) \<or> (65 \<le> ord c \<and> ord c \<le> 90) \<or> ord c = 95
      \<or> (97 \<le> ord c \<and> ord c \<le> 122) \<or> ord c = 170 \<or> ord c = 178 \<or> ord c = 179
      \<or> ord c = 181 \<or> ord c = 185 \<or> ord c = 186 \<or> (188 \<le> ord c \<and> ord c \<le> 190)
      \<or> (192 \<le> ord c \<and> ord c \<le> 214) \<or> (216 \<le> ord c \<and> ord c \<le> 246) \<or> 248 \<le> ord c)"

text \<open>The class \<^verbatim>\<open>\d\<close>, the class \<^verbatim>\<open>\s\<close> and the dot, which matches all but a newline.\<close>

definition is_digit :: "char \<Rightarrow> bool" where
  "is_digit c = (48 \<le> ord c \<and> ord c \<le> 57)"

definition any_char :: "char \<Rightarrow> bool" where
  "any_char c = (c \<noteq> CHR 0x0A)"

definition word_boundary :: "position \<Rightarrow> bool" where
  "word_boundary p =
     ((case fst p of None \<Rightarrow> False | Some c \<Rightarrow> is_word_char c)
      \<noteq> (case snd p of [] \<Rightarrow> False | c # cs \<Rightarrow> is_word_char c))"

fun match_lit :: "string \<Rightarrow> position \<Rightarrow> position list" where
  "match_lit [] p = [p]"
| "match_lit (c # cs) (prev, []) = []"
| "match_lit (c # cs) (prev, x # xs) = (if c = x then match_lit cs (Some x, xs) else [])"

fun match_star :: "(char \<Rightarrow> bool) \<Rightarrow> char option \<Rightarrow> string \<Rightarrow> position list" where
  "match_star P prev [] = [(prev, [])]"
| "match_star P prev (x # xs) = (prev, x # xs) # (if P x then match_star P (Some x) xs else [])"

fun match_cls :: "(char \<Rightarrow> bool) \<Rightarrow> position \<Rightarrow> position list" where
  "match_cls P (prev, []) = []"
| "match_cls P (prev, x # xs) = (if P x then [(Some x, xs)] else [])"

primrec ends :: "regex \<Rightarrow> position \<Rightarrow> position list" where
  "ends (Lit l) p = match_lit l p"
| "ends (Cls P) p = match_cls P p"
| "ends (StarCls P) p = match_star P (fst p) (snd p)"
| "ends (PlusCls P) p = concat (map (\<lambda>q. match_star P (fst q) (snd q)) (match_cls P p))"
| "ends (Seq a b) p = concat (map (ends b) (ends a p))"
| "ends (Alt a b) p = ends a p @ ends b p"
| "ends WordB p = (if word_boundary p then [p] else [])"

fun search_from :: "regex \<Rightarrow> char option \<Rightarrow> string \<Rightarrow> bool" where
  "search_from r prev [] = (ends r (prev, []) \<noteq> [])"
| "search_from r prev (x # xs) = (ends r (prev, x # xs) \<noteq> [] \<or> search_from r (Some x) xs)"

text \<open>\<^verbatim>\<open>re.search(pattern, s)\<close> as a truth value.\<close>

definition re_search :: "regex \<Rightarrow> string \<Rightarrow> bool" where
  "re_search r s = search_from r None s"

text \<open>A sequence and an alternation of several patterns.\<close>

fun seqs :: "regex list \<Rightarrow> regex" where
  "seqs [] = Lit []"
| "seqs [r] = r"
| "seqs (r # rs) = Seq r (seqs rs)"

fun alts :: "string list \<Rightarrow> regex" where
  "alts [] = Cls (\<lambda>c. False)"
| "alts [l] = Lit l"
| "alts (l # ls) = Alt (Lit l) (alts ls)"

text \<open>\<^verbatim>\<open>re.split\<close> on one or more characters of a class: a piece ends where a run of
  separators starts. The flag says that the previous character was a separator.\<close>

fun re_split_from :: "(char \<Rightarrow> bool) \<Rightarrow> bool \<Rightarrow> string \<Rightarrow> string \<Rightarrow> string list" where
  "re_split_from P in_sep cur [] = [cur]"
| "re_split_from P in_sep cur (c # cs) =
     (if P c then (if in_sep then re_split_from P True [] cs else cur # re_split_from P True [] cs)
      else re_split_from P False (cur @ [c]) cs)"

definition re_split :: "(char \<Rightarrow> bool) \<Rightarrow> string \<Rightarrow> string list" where
  "re_split P s = re_split_from P False [] s"

text \<open>\<^verbatim>\<open>re.findall(r'\b\w+\b', s)\<close>: a match starts at the start of a word, takes the whole run
  of word characters and ends at its end, so the matches are the maximal runs.\<close>

fun word_runs_from :: "string \<Rightarrow> string \<Rightarrow> string list" where
  "word_runs_from cur [] = (if cur = [] then [] else [cur])"
| "word_runs_from cur (c # cs) =
     (if is_word_char c then word_runs_from (cur @ [c]) cs
      else if cur = [] then word_runs_from [] cs else cur # word_runs_from [] cs)"

definition word_runs :: "string \<Rightarrow> string list" where
  "word_runs s = word_runs_from [] s"

text \<open>\<^verbatim>\<open>len(re.findall(r'\b' + re.escape(lit) + r'\b', s))\<close>: the matches are found from left to
  right and do not overlap; \<open>skip\<close> counts the characters of the last match still to pass.\<close>

fun count_word_lit :: "string \<Rightarrow> char option \<Rightarrow> nat \<Rightarrow> string \<Rightarrow> nat" where
  "count_word_lit l prev skip [] = 0"
| "count_word_lit l prev skip (x # xs) =
     (if 0 < skip then count_word_lit l (Some x) (skip - 1) xs
      else if ends (seqs [WordB, Lit l, WordB]) (prev, x # xs) \<noteq> []
        then 1 + count_word_lit l (Some x) (length l - 1) xs
        else count_word_lit l (Some x) 0 xs)"

definition findall_word_lit :: "string \<Rightarrow> string \<Rightarrow> nat" where
  "findall_word_lit l s = count_word_lit l None 0 s"

text \<open>\<^verbatim>\<open>str.title()\<close>: a cased character after an uncased one is put in upper case, a
  character after a cased one in lower case. The upper-case forms of the three characters 181,
  223 and 255 lie outside the range of the model, and these characters are kept.\<close>

definition is_cased :: "char \<Rightarrow> bool" where
  "is_cased c =
     ((65 \<le> ord c \<and> ord c \<le> 90) \<or> (97 \<le> ord c \<and> ord c \<le> 122) \<or> ord c = 170 \<or> ord c = 181
      \<or> ord c = 186 \<or> (192 \<le> ord c \<and> ord c \<le> 214) \<or> (216 \<le> ord c \<and> ord c \<le> 246)
      \<or> 248 \<le> ord c)"

definition upper_char :: "char \<Rightarrow> char" where
  "upper_char c =
     (if (97 \<le> ord c \<and> ord c \<le> 122) \<or> (224 \<le> ord c \<and> ord c \<le> 254 \<and> ord c \<noteq> 247)
      then char_of (ord c - 32) else c)"

fun title_from :: "bool \<Rightarrow> string \<Rightarrow> string" where
  "title_from previous_is_cased [] = []"
| "title_from previous_is_cased (c # cs) =
     (if previous_is_cased then lower_char c else upper_char c) # title_from (is_cased c) cs"

definition str_title :: "string \<Rightarrow> string" where
  "str_title s = title_from False s"

section \<open>Floating-point numbers\<close>

text \<open>
  A Python \<^verbatim>\<open>float\<close> is a binary64 number, here the rational number it denotes. Every
  arithmetic operation returns the exact result rounded to 53 significant bits, ties to the
  even significand. The exponent range is not bounded in the model: the quantities of the
  program are counts of words and of patterns and stay far from overflow and from the
  subnormal numbers. An integer operand is converted exactly; every integer that the program
  converts is below \<open>2 ^ 53\<close> in size, or it is the numerator or denominator of a true division,
  which Python rounds once.
\<close>

text \<open>Rounding to the nearest integer, ties to even.\<close>

definition round_half_even :: "rat \<Rightarrow> int" where
  "round_half_even x =
     (let f = \<lfloor>x\<rfloor>; d = x - of_int f
      in if d < 1 / 2 then f else if 1 / 2 < d then f + 1 else if even f then f else f + 1)"

text \<open>The exponent \<open>k\<close> of a positive number: \<open>2 ^ k \<le> x < 2 ^ (k + 1)\<close>.\<close>

definition binade :: "rat \<Rightarrow> int" where
  "binade x =
     (let (a, b) = quotient_of x; d = bitlen a - bitlen b
      in if 2 powi d \<le> x then d else d - 1)"

text \<open>Rounding a number to binary64.\<close>

definition fl :: "rat \<Rightarrow> rat" where
  "fl x = (if x = 0 then 0
           else let e = binade \<bar>x\<bar> - 52 in of_int (round_half_even (x / 2 powi e)) * 2 powi e)"

definition fadd :: "rat \<Rightarrow> rat \<Rightarrow> rat" where
  "fadd a b = fl (a + b)"

definition fsub :: "rat \<Rightarrow> rat \<Rightarrow> rat" where
  "fsub a b = fl (a - b)"

definition fmul :: "rat \<Rightarrow> rat \<Rightarrow> rat" where
  "fmul a b = fl (a * b)"

text \<open>True division; the program never divides by zero.\<close>

definition fdiv :: "rat \<Rightarrow> rat \<Rightarrow> rat" where
  "fdiv a b = fl (a / b)"

section \<open>Response validation\<close>

text \<open>The dictionary of \<^verbatim>\<open>_load_validation_rules\<close>. The constructor stores it in the
  processor and no method assigns it afterwards, so the methods below read it as a constant.\<close>

record validation_rules =
  min_length :: nat
  max_length :: nat
  min_words :: nat
  max_words :: nat
  required_engagement :: bool
  block_inappropriate :: bool

definition load_validation_rules :: validation_rules where
  "load_validation_rules =
     \<lparr>min_length = 10, max_length = 2000, min_words = 3, max_words = 500,
      required_engagement = True, block_inappropriate = True\<rparr>"

definition inappropriate_patterns :: "regex list" where
  "inappropriate_patterns =
     [seqs [WordB, alts [''kill'', ''die'', ''death'', ''suicide'', ''harm''], PlusCls isspace,
            Lit ''myself'', WordB],
      seqs [WordB, Lit ''suicide'', WordB],
      seqs [WordB, Lit ''harm'', PlusCls isspace, Lit ''others'', WordB],
      seqs [WordB, Lit ''violent'', WordB, StarCls any_char, WordB, Lit ''thoughts'', WordB],
      seqs [WordB, Lit ''substance'', PlusCls isspace, Lit ''abuse'', WordB]]"

definition check_appropriate_content :: "string \<Rightarrow> bool \<times> string option" where
  "check_appropriate_content response =
     (let response_lower = lower response
      in if list_ex (\<lambda>pattern. re_search pattern response_lower) inappropriate_patterns
         then (False, Some ''Your response contains content that requires professional support. Please consider reaching out to a mental health professional or crisis helpline.'')
         else (True, None))"

definition minimal_responses :: "string list" where
  "minimal_responses =
     [''yes'', ''no'', ''maybe'', ''idk'', ''i don't know'', ''nothing'',
      ''not sure'', ''dunno'', ''nope'', ''yep'', ''fine'', ''ok'', ''okay'']"

definition check_engagement_level :: "string \<Rightarrow> bool \<times> string option" where
  "check_engagement_level response =
     (let response_words = split (lower response)
      in if length response_words \<le> 2 \<and> list_ex (\<lambda>word. word \<in> set minimal_responses) response_words
         then (False, Some ''Please provide a more detailed response to help us understand your experience better.'')
         else let unique_words = remdups response_words
           in if length response_words > 5
                 \<and> fdiv (of_nat (length unique_words)) (of_nat (length response_words)) < fl (3 / 10)
              then (False, Some ''Please provide a more varied response with different thoughts and details.'')
              else (True, None))"

definition validate_response :: "string \<Rightarrow> bool \<times> string option" where
  "validate_response response0 =
     (if response0 = [] \<or> strip response0 = []
      then (False, Some ''Please provide a response to continue.'')
      else let response = strip response0
        in if length response < min_length load_validation_rules
           then (False, Some (''Please provide a more detailed response (at least ''
                   @ str_nat (min_length load_validation_rules) @ '' characters).''))
           else if length response > max_length load_validation_rules
           then (False, Some (''Response is too long. Please keep it under ''
                   @ str_nat (max_length load_validation_rules) @ '' characters.''))
           else let word_count = length (split response)
             in if word_count < min_words load_validation_rules
                then (False, Some (''Please provide at least ''
                        @ str_nat (min_words load_validation_rules) @ '' words in your response.''))
                else if word_count > max_words load_validation_rules
                then (False, Some (''Response is too long. Please keep it under ''
                        @ str_nat (max_words load_validation_rules) @ '' words.''))
                else if block_inappropriate load_validation_rules
                        \<and> \<not> fst (check_appropriate_content response)
                then (False, snd (check_appropriate_content response))
                else if required_engagement load_validation_rules
                        \<and> \<not> fst (check_engagement_level response)
                then (False, snd (check_engagement_level response))
                else (True, None))"

section \<open>Response analysis\<close>

definition load_therapeutic_indicators :: "(string \<times> string list) list" where
  "load_therapeutic_indicators =
     [(''self_awareness'',
        [''i realize'', ''i notice'', ''i understand'', ''i recognize'', ''i see'',
         ''pattern'', ''connection'', ''relationship'', ''impact'', ''effect'',
         ''trigger'', ''cause'', ''lead to'', ''result in'']),
      (''emotional_processing'',
        [''feel'', ''felt'', ''emotion'', ''emotional'', ''mood'', ''feelings'',
         ''anxious'', ''sad'', ''angry'', ''frustrated'', ''overwhelmed'',
         ''hopeful'', ''calm'', ''peaceful'', ''content'', ''relieved'']),
      (''cognitive_restructuring'',
        [''thought'', ''think'', ''believe'', ''assumption'', ''expectation'',
         ''realistic'', ''balanced'', ''alternative'', ''different way'',
         ''perspective'', ''viewpoint'', ''evidence'', ''proof'']),
      (''behavioral_insight'',
        [''behavior'', ''action'', ''reaction'', ''response'', ''habit'',
         ''avoid'', ''escape'', ''withdraw'', ''engage'', ''participate'',
         ''cope'', ''manage'', ''handle'', ''deal with'']),
      (''future_orientation'',
        [''will'', ''plan'', ''goal'', ''hope'', ''expect'', ''next time'',
         ''future'', ''tomorrow'', ''later'', ''going to'', ''intend'']),
      (''self_compassion'',
        [''kind to myself'', ''forgive myself'', ''understanding'',
         ''gentle'', ''patient'', ''compassionate'', ''accepting'',
         ''human'', ''normal'', ''understandable''])]"

definition count_therapeutic_indicators :: "string \<Rightarrow> (string \<times> nat) list" where
  "count_therapeutic_indicators response =
     (let response_lower = lower response
      in map (\<lambda>(category, indicators).
                (category, sum_list (map (\<lambda>indicator. findall_word_lit indicator response_lower) indicators)))
           load_therapeutic_indicators)"

text \<open>\<^verbatim>\<open>sum(1 for x in xs if cond(x))\<close>.\<close>

definition count_if :: "('a \<Rightarrow> bool) \<Rightarrow> 'a list \<Rightarrow> nat" where
  "count_if P xs = length (filter P xs)"

definition emotion_words :: "string list" where
  "emotion_words =
     [''feel'', ''felt'', ''emotion'', ''emotional'', ''mood'', ''feelings'',
      ''anxious'', ''nervous'', ''worried'', ''scared'', ''afraid'',
      ''sad'', ''depressed'', ''hopeless'', ''empty'', ''numb'',
      ''angry'', ''frustrated'', ''irritated'', ''annoyed'',
      ''happy'', ''joyful'', ''content'', ''peaceful'', ''calm'',
      ''excited'', ''enthusiastic'', ''motivated'', ''hopeful'',
      ''overwhelmed'', ''stressed'', ''tense'', ''relaxed'']"

definition personal_emotion_patterns :: "regex list" where
  "personal_emotion_patterns =
     [Lit ''i feel'', Lit ''i felt'', Lit ''i am'', Lit ''i'm'', Lit ''i was'',
      Lit ''made me feel'', Lit ''it feels'', Lit ''feeling'']"

definition assess_emotional_depth :: "string \<Rightarrow> rat" where
  "assess_emotional_depth response =
     (let response_lower = lower response;
          emotion_count = count_if (\<lambda>word. str_in word response_lower) emotion_words;
          personal_count = count_if (\<lambda>pattern. re_search pattern response_lower) personal_emotion_patterns;
          word_count = length (split response)
      in min 100 (fmul (fdiv (of_nat (emotion_count + personal_count * 2))
                             (max (fdiv (of_nat word_count) 10) 1)) 100))"

definition specificity_indicators :: "string list" where
  "specificity_indicators =
     [''when'', ''where'', ''how'', ''why'', ''what'', ''who'',
      ''because'', ''since'', ''due to'', ''as a result'',
      ''for example'', ''such as'', ''like'', ''including'',
      ''specifically'', ''particularly'', ''especially'']"

definition concrete_patterns :: "regex list" where
  "concrete_patterns =
     [seqs [WordB, PlusCls is_digit, WordB],
      seqs [WordB, alts [''yesterday'', ''today'', ''tomorrow'', ''monday'', ''tuesday'', ''wednesday'',
                         ''thursday'', ''friday'', ''saturday'', ''sunday''], WordB],
      seqs [WordB, alts [''morning'', ''afternoon'', ''evening'', ''night''], WordB],
      seqs [WordB, alts [''home'', ''work'', ''school'', ''office'', ''gym'', ''store''], WordB]]"

definition assess_specificity :: "string \<Rightarrow> rat" where
  "assess_specificity response =
     (let response_lower = lower response;
          specificity_count = count_if (\<lambda>indicator. str_in indicator response_lower) specificity_indicators;
          concrete_count = count_if (\<lambda>pattern. re_search pattern response_lower) concrete_patterns;
          word_count = length (split response)
      in min 100 (fmul (fdiv (of_nat (specificity_count + concrete_count))
                             (max (fdiv (of_nat word_count) 15) 1)) 100))"

definition insight_patterns :: "regex list" where
  "insight_patterns =
     [Lit ''i realize'', Lit ''i understand'', Lit ''i see'', Lit ''i notice'',
      Lit ''i recognize'', Lit ''i learned'', Lit ''i discovered'',
      Lit ''pattern'', Lit ''connection'', Lit ''relationship'',
      Lit ''this shows'', Lit ''this means'', Lit ''this suggests'',
      Lit ''because'', Lit ''since'', Lit ''as a result'', Lit ''therefore'',
      Lit ''leads to'', Lit ''causes'', Lit ''triggers'', Lit ''affects'']"

definition causal_patterns :: "regex list" where
  "causal_patterns =
     [seqs [Lit ''if'', StarCls any_char, Lit ''then''],
      seqs [Lit ''when'', StarCls any_char, Lit ''i''],
      seqs [Lit ''because'', StarCls any_char, Lit ''i''],
      Lit ''this makes me'', Lit ''which leads to'', Lit ''resulting in'']"

definition assess_insight_level :: "string \<Rightarrow> rat" where
  "assess_insight_level response =
     (let response_lower = lower response;
          insight_count = count_if (\<lambda>pattern. re_search pattern response_lower) insight_patterns;
          causal_count = count_if (\<lambda>pattern. re_search pattern response_lower) causal_patterns;
          word_count = length (split response)
      in min 100 (fmul (fdiv (of_nat (insight_count + causal_count * 2))
                             (max (fdiv (of_nat word_count) 20) 1)) 100))"

definition category_keywords :: "(string \<times> string list) list" where
  "category_keywords =
     [(''Situation/Trigger'', [''situation'', ''event'', ''happened'', ''occurred'', ''trigger'', ''when'']),
      (''Thoughts'', [''thought'', ''think'', ''believe'', ''mind'', ''ideas'', ''opinion'']),
      (''Emotions'', [''feel'', ''emotion'', ''mood'', ''emotional'', ''feelings'']),
      (''Behaviors'', [''did'', ''action'', ''behavior'', ''react'', ''response'', ''avoid'']),
      (''Physical Reactions'', [''body'', ''physical'', ''symptoms'', ''tension'', ''heart'', ''breathing'']),
      (''Cognitive Distortions'', [''thinking'', ''pattern'', ''assumption'', ''belief'']),
      (''Examine Evidence'', [''evidence'', ''proof'', ''support'', ''fact'', ''true'', ''reality'']),
      (''Balanced Thought'', [''balanced'', ''realistic'', ''alternative'', ''different'', ''helpful'']),
      (''Action Planning'', [''plan'', ''action'', ''step'', ''do'', ''will'', ''going to''])]"

definition assess_category_relevance :: "string \<Rightarrow> string \<Rightarrow> rat" where
  "assess_category_relevance response category =
     (let keywords = (case map_of category_keywords category of None \<Rightarrow> [] | Some ks \<Rightarrow> ks)
      in if keywords = [] then 50
         else let response_lower = lower response;
                  relevance_count = count_if (\<lambda>keyword. str_in keyword response_lower) keywords
           in min 100 (fmul (fdiv (of_nat relevance_count) (of_nat (length keywords))) 100))"

text \<open>The loop over the characters of one word in \<^verbatim>\<open>_count_syllables\<close>: the state is the
  count and \<^verbatim>\<open>prev_was_vowel\<close>.\<close>

fun vowel_groups :: "nat \<Rightarrow> bool \<Rightarrow> string \<Rightarrow> nat" where
  "vowel_groups count prev_was_vowel [] = count"
| "vowel_groups count prev_was_vowel (char # rest) =
     (let is_vowel = (char \<in> set ''aeiouy'')
      in vowel_groups (if is_vowel \<and> \<not> prev_was_vowel then count + 1 else count) is_vowel rest)"

definition word_syllables :: "string \<Rightarrow> nat" where
  "word_syllables word =
     (let count = vowel_groups 0 False word;
          count = (if endswith word ''e'' \<and> count > 1 then count - 1 else count)
      in max 1 count)"

definition count_syllables :: "string \<Rightarrow> nat" where
  "count_syllables text = sum_list (map word_syllables (word_runs (lower text)))"

definition sentence_end :: "char \<Rightarrow> bool" where
  "sentence_end c = (c \<in> set ''.!?'')"

definition calculate_readability :: "string \<Rightarrow> rat" where
  "calculate_readability response =
     (let sentences = int (length (re_split sentence_end response)) - 1;
          words = length (split response);
          syllables = count_syllables response
      in if sentences = 0 \<or> words = 0 then 0
         else let score = fsub (fsub (fl (206835 / 1000))
                                     (fmul (fl (1015 / 1000)) (fdiv (of_nat words) (of_int sentences))))
                               (fmul (fl (846 / 10)) (fdiv (of_nat syllables) (of_nat words)))
           in max 0 (min 100 score))"

text \<open>The dictionary \<^verbatim>\<open>analysis\<close>, first as \<^verbatim>\<open>analyze_response_quality\<close> builds it and
  then with the key \<^verbatim>\<open>overall_quality_score\<close> that it adds.\<close>

record analysis =
  word_count :: nat
  character_count :: nat
  sentence_count :: int
  therapeutic_indicators :: "(string \<times> nat) list"
  emotional_depth :: rat
  specificity_score :: rat
  insight_level :: rat
  category_relevance :: rat
  readability_score :: rat

record scored_analysis = analysis +
  overall_quality_score :: rat

definition calculate_quality_score :: "'a analysis_scheme \<Rightarrow> rat" where
  "calculate_quality_score a =
     (let word_score = min 100 (max 0 (fmul (fdiv (of_int (int (word_count a) - 5)) 95) 100))
      in fadd (fadd (fadd (fadd (fmul (fl (1 / 10)) word_score)
                                (fmul (fl (25 / 100)) (emotional_depth a)))
                          (fmul (fl (2 / 10)) (specificity_score a)))
                    (fmul (fl (25 / 100)) (insight_level a)))
              (fmul (fl (2 / 10)) (category_relevance a)))"

definition analyze_response_quality :: "string \<Rightarrow> string \<Rightarrow> scored_analysis" where
  "analyze_response_quality response question_category =
     (let a = \<lparr>word_count = length (split response),
               character_count = length response,
               sentence_count = int (length (re_split sentence_end response)) - 1,
               therapeutic_indicators = count_therapeutic_indicators response,
               emotional_depth = assess_emotional_depth response,
               specificity_score = assess_specificity response,
               insight_level = assess_insight_level response,
               category_relevance = assess_category_relevance response question_category,
               readability_score = calculate_readability response\<rparr>
      in analysis.extend a (scored_analysis.fields (calculate_quality_score a)))"

section \<open>Personality response generator\<close>

text \<open>An entry of \<^verbatim>\<open>personality_templates\<close>. The key \<^verbatim>\<open>characteristics\<close> is read by
  \<^verbatim>\<open>get_personality_characteristics\<close> only and is left out.\<close>

record personality_template =
  response_patterns :: "string list"
  welcome_message :: string
  closing_message :: string

text \<open>The dictionaries of \<^verbatim>\<open>_load_personality_templates\<close>, \<^verbatim>\<open>_get_category_context\<close> and
  \<^verbatim>\<open>_get_category_specific_insight\<close>.\<close>

definition neutral_template :: personality_template where
  \<open>neutral_template =
     \<lparr>response_patterns =
        [''Thank you for sharing that. {context} Let's continue exploring this together.'',
         ''I appreciate you taking the time to reflect on this. Your response helps us understand the situation better.'',
         ''That's helpful information. {insight} Let's move forward with the next aspect.'',
         ''Thank you for being open about your experience. This kind of reflection can be valuable for understanding patterns.'',
         ''I understand. {category_context} Let's continue examining this.''],
      welcome_message = ''Hello, I'm here to guide you through a CBT journaling session. This process will help you explore your thoughts, feelings, and responses to recent experiences. Please select the area you'd like to focus on today.'',
      closing_message = ''Thank you for taking time for your mental health today. Remember, self-reflection is a continuous process that can help you develop better coping strategies.''\<rparr>\<close>

definition conscientiousness_template :: personality_template where
  \<open>conscientiousness_template =
     \<lparr>response_patterns =
        [''Excellent work providing that detailed information. Your thorough response demonstrates genuine commitment to this self-examination process. Let's systematically proceed to analyze the next component.'',
         ''Outstanding reflection. I particularly appreciate the specificity of your response - this level of detail will significantly enhance our analysis. Now, let's methodically examine the next aspect.'',
         ''Thank you for that comprehensive response. Your careful consideration of this question shows dedication to understanding these patterns thoroughly. We'll now progress systematically to the next element.'',
         ''Superb insight. The thoroughness of your reflection indicates you're taking this process seriously, which is absolutely crucial for meaningful progress. Let's continue with our structured approach.'',
         ''Excellent self-awareness demonstrated in your response. This methodical exploration of your experience will provide valuable insights for developing effective coping strategies. Proceeding to our next structured component.''],
      welcome_message = ''Welcome to this comprehensive CBT journaling session. I'm here to guide you through a systematic, evidence-based process that will help you thoroughly analyze your thoughts, emotions, and behavioral patterns. This structured approach will provide you with valuable insights and actionable strategies. Please select your primary area of focus so we can begin this methodical exploration.'',
      closing_message = ''Congratulations on completing this comprehensive self-examination process. Your dedication to this systematic approach demonstrates excellent commitment to your mental health and personal development. Remember, consistent application of these evidence-based techniques will yield the most significant long-term benefits for your wellbeing.''\<rparr>\<close>

definition extraversion_template :: personality_template where
  \<open>extraversion_template =
     \<lparr>response_patterns =
        [''Wow, thank you so much for sharing that with me! I really appreciate your openness - it takes courage to dive into these feelings. You're doing such great work here! Let's keep this momentum going together!'',
         ''That's fantastic that you're exploring this so openly! I'm genuinely excited to help you work through this. Your willingness to share is really inspiring! Let's dive into the next part - I think you're going to find this really helpful!'',
         ''Amazing reflection! I love how thoughtful you're being about this whole process. Seriously, you should be proud of yourself for taking the time to do this work! Ready for the next step? I think this is going to be really insightful!'',
         ''This is so great - you're really connecting with the process! I can tell you're putting genuine effort into understanding yourself better, and that's absolutely wonderful! Let's keep up this fantastic energy and explore the next aspect together!'',
         ''I'm really impressed by your honesty and self-awareness! It's exciting to see someone engage so fully with this process. You're building such valuable insights about yourself! Let's continue this journey together - I'm here to support you every step of the way!''],
      welcome_message = (''Hey there! '' @ [CHR 0xC3, CHR 0xB0, CHR 0xC5, CHR 0xB8, CHR 0xCB, CHR 0x9C, CHR 0xC5, CHR 0xA0] @ '' I'm so excited to work with you today on this CBT journaling adventure! This is going to be such a valuable experience for understanding yourself better and building some awesome coping strategies. I'm here to guide you through every step, and I genuinely can't wait to see what insights we discover together! So, what area would you like to dive into today? Let's make this session amazing!''),
      closing_message = (''Wow, what an incredible session we just had together! I'm genuinely so proud of you for putting in this effort and being so open about your experiences. You've shown real courage and commitment to your mental health today! Remember, every small step counts, and you're building something really meaningful here. Keep up the fantastic work, and remember - I'm always here whenever you need support! You've got this! '' @ [CHR 0xC3, CHR 0xB0, CHR 0xC5, CHR 0xB8, CHR 0xC5, CHR 0x92, CHR 0xC5, CHR 0xB8])\<rparr>\<close>

definition load_personality_templates :: "(string \<times> personality_template) list" where
  "load_personality_templates =
     [(''neutral'', neutral_template),
      (''conscientiousness'', conscientiousness_template),
      (''extraversion'', extraversion_template)]"

definition contexts :: "(string \<times> (string \<times> string) list) list" where
  \<open>contexts =
   [(''neutral'',
      [(''Situation/Trigger'', ''Understanding the trigger is an important first step.''),
       (''Thoughts'', ''Identifying these thoughts is an important part of the process.''),
       (''Emotions'', ''Recognizing your emotional responses helps us understand your experience.''),
       (''Behaviors'', ''Understanding your behavioral responses provides insight into coping patterns.''),
       (''Physical Reactions'', ''Physical symptoms often reflect our mental state.''),
       (''Cognitive Distortions'', ''Recognizing thinking patterns is valuable for developing awareness.''),
       (''Examine Evidence'', ''This evaluation process helps develop balanced perspectives.''),
       (''Balanced Thought'', ''Creating alternative thoughts is a key CBT skill.''),
       (''Action Planning'', ''Planning concrete actions helps translate insights into practice.'')]),
    (''conscientiousness'',
      [(''Situation/Trigger'', ''Systematic analysis of triggers provides crucial foundational data for our comprehensive examination.''),
       (''Thoughts'', ''Methodical identification of cognitive patterns enables thorough analysis of your thought processes.''),
       (''Emotions'', ''Precise emotional assessment is essential for comprehensive understanding of your affective responses.''),
       (''Behaviors'', ''Detailed behavioral analysis provides critical insights into your response patterns and coping mechanisms.''),
       (''Physical Reactions'', ''Systematic documentation of physiological responses enhances our comprehensive assessment.''),
       (''Cognitive Distortions'', ''Rigorous examination of thinking patterns is fundamental to evidence-based cognitive restructuring.''),
       (''Examine Evidence'', ''This systematic evaluation process is essential for developing well-founded, balanced perspectives.''),
       (''Balanced Thought'', ''Structured cognitive reframing represents a core evidence-based therapeutic technique.''),
       (''Action Planning'', ''Strategic action planning ensures systematic implementation of therapeutic insights.'')]),
    (''extraversion'',
      [(''Situation/Trigger'', ''I love that you're diving right into understanding what sparked these feelings!''),
       (''Thoughts'', ''This is so important - getting clear on these thoughts is going to be super helpful!''),
       (''Emotions'', ''You're doing amazing work exploring these emotions - this is really valuable stuff!''),
       (''Behaviors'', ''I'm so glad we're looking at this together - understanding your responses is incredibly insightful!''),
       (''Physical Reactions'', ''This mind-body connection stuff is fascinating, and you're really getting it!''),
       (''Cognitive Distortions'', ''You're being so brave examining these thinking patterns - this is powerful work!''),
       (''Examine Evidence'', ''I love this part - we're like detectives uncovering the real story here!''),
       (''Balanced Thought'', ''This is so exciting - you're building new, healthier ways of thinking!''),
       (''Action Planning'', ''Yes! I'm thrilled we're moving into action mode - this is where the magic happens!'')])]\<close>

definition insights :: "(string \<times> (string \<times> string) list) list" where
  \<open>insights =
   [(''neutral'',
      [(''Thoughts'', ''Identifying these thoughts helps us understand your mental patterns.''),
       (''Emotions'', ''Understanding emotional responses is key to the CBT process.''),
       (''Behaviors'', ''Behavioral patterns often reflect our internal states.''),
       (''Physical Reactions'', ''The mind-body connection is an important aspect to explore.'')]),
    (''conscientiousness'',
      [(''Thoughts'', ''Systematic thought identification enables comprehensive cognitive analysis.''),
       (''Emotions'', ''Methodical emotional assessment provides essential diagnostic clarity.''),
       (''Behaviors'', ''Structured behavioral analysis yields crucial therapeutic insights.''),
       (''Physical Reactions'', ''Systematic physiological assessment enhances diagnostic precision.'')]),
    (''extraversion'',
      [(''Thoughts'', ''Getting clear on thoughts is so empowering!''),
       (''Emotions'', ''Understanding emotions is incredibly valuable for personal growth!''),
       (''Behaviors'', ''Exploring behaviors together is such meaningful work!''),
       (''Physical Reactions'', ''The mind-body connection is absolutely fascinating!'')])]\<close>


text \<open>\<^verbatim>\<open>d.get(k, default)\<close> and \<^verbatim>\<open>d[k]\<close> on a dictionary.\<close>

definition dict_get :: "('k \<times> 'v) list \<Rightarrow> 'k \<Rightarrow> 'v \<Rightarrow> 'v" where
  "dict_get d k dflt = (case map_of d k of None \<Rightarrow> dflt | Some v \<Rightarrow> v)"

definition dict_item :: "('k \<times> 'v) list \<Rightarrow> 'k \<Rightarrow> py_error + 'v" where
  "dict_item d k = (case map_of d k of None \<Rightarrow> Inl KeyError | Some v \<Rightarrow> Inr v)"

text \<open>Sequencing of computations that can raise.\<close>

definition and_then :: "py_error + 'a \<Rightarrow> ('a \<Rightarrow> py_error + 'b) \<Rightarrow> py_error + 'b" where
  "and_then r f = (case r of Inl e \<Rightarrow> Inl e | Inr v \<Rightarrow> f v)"

text \<open>
  \<^verbatim>\<open>str.format\<close> with keyword arguments, for format strings whose replacement fields are
  plain names, as all patterns of the program are: text is copied, \<^verbatim>\<open>{{\<close> and
  \<^verbatim>\<open>}}\<close> stand for braces, \<^verbatim>\<open>{name}\<close> is replaced by the argument of that name, and the
  replacement is not scanned again. A missing name raises \<^verbatim>\<open>KeyError\<close>, a field without
  a name asks for a positional argument and raises \<^verbatim>\<open>IndexError\<close>, a brace left alone
  raises \<^verbatim>\<open>ValueError\<close>.
\<close>

datatype format_mode = Text | AfterOpen | InField string | AfterClose

fun format_from :: "(string \<times> string) list \<Rightarrow> format_mode \<Rightarrow> string \<Rightarrow> py_error + string" where
  "format_from kwargs mode [] = (if mode = Text then Inr [] else Inl ValueError)"
| "format_from kwargs mode (c # cs) =
     (case mode of
        Text \<Rightarrow>
          if c = CHR ''{'' then format_from kwargs AfterOpen cs
          else if c = CHR ''}'' then format_from kwargs AfterClose cs
          else and_then (format_from kwargs Text cs) (\<lambda>rest. Inr (c # rest))
      | AfterOpen \<Rightarrow>
          if c = CHR ''{'' then and_then (format_from kwargs Text cs) (\<lambda>rest. Inr (c # rest))
          else if c = CHR ''}'' then Inl IndexError
          else format_from kwargs (InField [c]) cs
      | InField name \<Rightarrow>
          if c = CHR ''}''
          then and_then (dict_item kwargs name)
                 (\<lambda>v. and_then (format_from kwargs Text cs) (\<lambda>rest. Inr (v @ rest)))
          else format_from kwargs (InField (name @ [c])) cs
      | AfterClose \<Rightarrow>
          if c = CHR ''}'' then and_then (format_from kwargs Text cs) (\<lambda>rest. Inr (c # rest))
          else Inl ValueError)"

definition str_format :: "string \<Rightarrow> (string \<times> string) list \<Rightarrow> py_error + string" where
  "str_format s kwargs = format_from kwargs Text s"

definition get_category_context :: "string \<Rightarrow> string \<Rightarrow> string" where
  "get_category_context category personality =
     dict_get (dict_get contexts personality (dict_get contexts ''neutral'' [])) category ''''"

definition get_category_specific_insight :: "string \<Rightarrow> string \<Rightarrow> string" where
  "get_category_specific_insight category personality =
     dict_get (dict_get insights personality (dict_get insights ''neutral'' [])) category ''''"

definition get_step_insight :: "int \<Rightarrow> string \<Rightarrow> string" where
  "get_step_insight step personality =
     (if personality = ''conscientiousness'' then
        (if step < 5 then ''This foundational information will inform our subsequent systematic analysis.''
         else if step < 10 then ''We're building a comprehensive understanding through methodical examination.''
         else ''This systematic approach ensures thorough therapeutic progress.'')
      else if personality = ''extraversion'' then
        (if step < 5 then ''We're off to such a great start with this exploration!''
         else if step < 10 then ''I'm loving how this is unfolding - you're doing fantastic work!''
         else ''Look at all this amazing progress we're making together!'')
      else
        (if step < 5 then ''This information helps build our understanding.''
         else if step < 10 then ''We're making good progress in this exploration.''
         else ''This reflection process is helping develop important insights.''))"

text \<open>\<^verbatim>\<open>generate_response\<close>. The default of \<^verbatim>\<open>get\<close> is evaluated before the call, so the
  entry of the neutral personality is looked up first; the index \<^verbatim>\<open>step % len(patterns)\<close>
  is taken with the sign of the divisor, as \<open>mod\<close> on \<^typ>\<open>int\<close> is.\<close>

definition generate_response :: "string \<Rightarrow> question \<Rightarrow> string \<Rightarrow> int \<Rightarrow> py_error + string" where
  "generate_response personality question user_response step =
     and_then (dict_item load_personality_templates ''neutral'') (\<lambda>neutral.
       let template = dict_get load_personality_templates personality neutral;
           patterns = response_patterns template
       in if patterns = [] then Inl ZeroDivisionError
          else and_then (py_index patterns (step mod int (length patterns))) (\<lambda>base_response.
            let context = get_category_context (q_category question) personality;
                category_context = get_category_specific_insight (q_category question) personality;
                insight = get_step_insight step personality
            in str_format base_response
                 [(''context'', context), (''category_context'', category_context), (''insight'', insight)]))"

definition get_welcome_message :: "string \<Rightarrow> py_error + string" where
  "get_welcome_message personality =
     and_then (dict_item load_personality_templates personality) (\<lambda>t. Inr (welcome_message t))"

definition get_closing_message :: "string \<Rightarrow> py_error + string" where
  "get_closing_message personality =
     and_then (dict_item load_personality_templates personality) (\<lambda>t. Inr (closing_message t))"

section \<open>Question styling\<close>

text \<open>\<^verbatim>\<open>random.choice(seq)\<close> returns the element at an index that the generator draws below
  the length; \<open>r\<close> is the number drawn.\<close>

definition random_choice :: "nat \<Rightarrow> 'a list \<Rightarrow> py_error + 'a" where
  "random_choice r seq = (if seq = [] then Inl IndexError else Inr (seq ! (r mod length seq)))"

definition extraversion_intros :: "string list" where
  "extraversion_intros =
     [''Awesome, let's keep the ball rolling!'',
      ''Great job! Let's jump into the next part.'',
      ''Okay, let's get to the next exciting bit!'',
      ''This is so insightful! Next up:'']"

definition conscientiousness_intros :: "string list" where
  "conscientiousness_intros =
     [''Proceeding to the next logical step:'',
      ''For our next point of analysis:'',
      ''To continue our systematic review:'',
      ''The next item on our agenda is:'']"

definition style_question_with_personality :: "nat \<Rightarrow> string \<Rightarrow> string \<Rightarrow> py_error + string" where
  "style_question_with_personality r personality question_text =
     (if personality = ''extraversion''
      then and_then (random_choice r extraversion_intros) (\<lambda>intro. Inr (intro @ '' '' @ question_text))
      else if personality = ''conscientiousness''
      then and_then (random_choice r conscientiousness_intros) (\<lambda>intro. Inr (intro @ '' '' @ question_text))
      else Inr question_text)"

section \<open>Dialogue state machine\<close>

text \<open>
  An entry of \<^verbatim>\<open>conversation_history\<close>; an entry of the user also names the question it
  answers. The fields of \<^verbatim>\<open>CBTChatbot\<close> that its methods assign, together with
  \<^verbatim>\<open>cbt_flows\<close>, which the constructor loads from a JSON file and no method assigns.

  The class \<^verbatim>\<open>SessionManager\<close> of \<^verbatim>\<open>utils/session_manager.py\<close> is a parameter of the
  model. The state of the manager that the chatbot holds is a value of a type \<open>'m\<close>, and
  so are the two methods that \<^verbatim>\<open>start_session\<close> and \<^verbatim>\<open>process_user_response\<close> call:
  a method takes the state of the manager and its arguments and returns the state it leaves
  together with the exception it raises, if any. The chatbot does not use the values the
  methods return.
\<close>

record 'm session_manager_class =
  sm_create_session :: "'m \<Rightarrow> string \<Rightarrow> string \<Rightarrow> 'm \<times> py_error option"
  sm_add_response :: "'m \<Rightarrow> string \<Rightarrow> string \<Rightarrow> string \<Rightarrow> string \<Rightarrow> 'm \<times> py_error option"

datatype speaker = Bot | User

record message =
  m_type :: speaker
  m_message :: string
  m_question_id :: "string option"

record 'm chatbot =
  cbt_flows :: "(string \<times> question list) list"
  session_manager :: 'm
  current_personality :: string
  current_condition :: "string option"
  current_step :: int
  conversation_history :: "message list"
  user_responses :: "(string \<times> string) list"

definition new_chatbot :: "'m \<Rightarrow> (string \<times> question list) list \<Rightarrow> 'm chatbot" where
  "new_chatbot manager flows =
     \<lparr>cbt_flows = flows, session_manager = manager, current_personality = ''neutral'', current_condition = None,
      current_step = 0, conversation_history = [], user_responses = []\<rparr>"

definition set_personality :: "'m chatbot \<Rightarrow> string \<Rightarrow> 'm chatbot \<times> bool" where
  "set_personality self personality =
     (if personality \<in> set [''neutral'', ''conscientiousness'', ''extraversion'']
      then (self\<lparr>current_personality := personality\<rparr>, True)
      else (self, False))"

definition bot_message :: "string \<Rightarrow> message" where
  "bot_message text = \<lparr>m_type = Bot, m_message = text, m_question_id = None\<rparr>"

definition user_message :: "string \<Rightarrow> string \<Rightarrow> message" where
  "user_message text qid = \<lparr>m_type = User, m_message = text, m_question_id = Some qid\<rparr>"

text \<open>\<^verbatim>\<open>self.cbt_flows[self.current_condition]\<close>.\<close>

definition current_flow :: "'m chatbot \<Rightarrow> py_error + question list" where
  "current_flow self =
     (case current_condition self of
        None \<Rightarrow> Inl KeyError
      | Some condition \<Rightarrow> dict_item (cbt_flows self) condition)"

text \<open>\<^verbatim>\<open>get_current_question\<close>: no condition, the empty condition name and a step at or past
  the end give \<^verbatim>\<open>None\<close>; a condition that is not a key of the flows raises.\<close>

definition get_current_question :: "'m chatbot \<Rightarrow> py_error + question option" where
  "get_current_question self =
     (if current_condition self = None \<or> current_condition self = Some []
      then Inr None
      else and_then (current_flow self) (\<lambda>flow.
        if current_step self \<ge> int (length flow) then Inr None
        else and_then (current_flow self) (\<lambda>flow.
          and_then (py_index flow (current_step self)) (\<lambda>q. Inr (Some q)))))"

definition get_condition_introduction :: "string \<Rightarrow> string" where
  "get_condition_introduction condition =
     dict_get
       [(''stress'', ''Great choice! Let's explore your stress using the CBT 5-Part Model. We'll examine how your situation, thoughts, emotions, behaviors, and physical reactions are all connected.''),
        (''anxiety'', ''Perfect! We'll examine your anxiety using CBT's comprehensive framework. This will help us understand your fears and develop strategies to manage them effectively.''),
        (''lowMood'', ''Excellent! Let's understand your low mood through the CBT 5-Part Model. We'll explore the connections between your thoughts, feelings, and behaviors to find pathways to feeling better.'')]
       condition
       (''Let's begin exploring your '' @ condition @ '' using CBT techniques.'')"

text \<open>\<^verbatim>\<open>start_session\<close> returns the object as the call leaves it and either the exception
  raised or the returned pair. Subscripting the missing first question raises
  \<^verbatim>\<open>TypeError\<close>.\<close>

definition start_session ::
    "'m session_manager_class \<Rightarrow> 'm chatbot \<Rightarrow> string \<Rightarrow> 'm chatbot \<times> (py_error + bool \<times> string)" where
  "start_session sm self condition =
     (if map_of (cbt_flows self) condition = None
      then (self, Inr (False, ''Unknown condition: '' @ condition))
      else
        let self0 = self\<lparr>current_condition := Some condition, current_step := 0,
                         conversation_history := [], user_responses := []\<rparr>;
            created = sm_create_session sm (session_manager self0) (current_personality self0) condition;
            self1 = self0\<lparr>session_manager := fst created\<rparr>
        in case snd created of
             Some e \<Rightarrow> (self1, Inl e)
           | None \<Rightarrow>
              (case get_welcome_message (current_personality self1) of
                 Inl e \<Rightarrow> (self1, Inl e)
               | Inr welcome_msg \<Rightarrow>
                   let condition_intro = get_condition_introduction condition
                   in case get_current_question self1 of
                        Inl e \<Rightarrow> (self1, Inl e)
                      | Inr None \<Rightarrow> (self1, Inl TypeError)
                      | Inr (Some first_question) \<Rightarrow>
                          (self1\<lparr>conversation_history := conversation_history self1 @
                                    [bot_message welcome_msg, bot_message condition_intro,
                                     bot_message (q_text first_question)]\<rparr>,
                           Inr (True, ''Started '' @ condition @ '' session with ''
                                      @ current_personality self1 @ '' personality''))))"

definition completion_message :: string where
  "completion_message = ''You've completed the CBT reflection process! This is a significant accomplishment. Would you like me to generate a journal summary of your session?''"

text \<open>\<^verbatim>\<open>process_user_response\<close> returns the object as the call leaves it and either the
  exception raised or the triple (success, bot response, session complete).\<close>

definition process_user_response ::
    "'m session_manager_class \<Rightarrow> 'm chatbot \<Rightarrow> string
       \<Rightarrow> 'm chatbot \<times> (py_error + bool \<times> string option \<times> bool)" where
  "process_user_response sm self user_input =
     (let (is_valid, validation_message) = validate_response user_input
      in if \<not> is_valid
         then (self, Inr (False, validation_message, False))
         else case get_current_question self of
           Inl e \<Rightarrow> (self, Inl e)
         | Inr None \<Rightarrow> (self, Inr (False, Some ''Session error: No current question found.'', False))
         | Inr (Some current_question) \<Rightarrow>
             let self1 = self\<lparr>user_responses :=
                           AList.update (q_id current_question) user_input (user_responses self)\<rparr>;
                 self2 = self1\<lparr>conversation_history := conversation_history self1 @
                           [user_message user_input (q_id current_question)]\<rparr>;
                 added = sm_add_response sm (session_manager self2) (q_id current_question)
                           (q_text current_question) user_input (q_category current_question);
                 self2 = self2\<lparr>session_manager := fst added\<rparr>
             in case snd added of
                  Some e \<Rightarrow> (self2, Inl e)
                | None \<Rightarrow>
                 (case generate_response (current_personality self2) current_question user_input
                         (current_step self2) of
                    Inl e \<Rightarrow> (self2, Inl e)
                  | Inr bot_response \<Rightarrow>
                      let self3 = self2\<lparr>conversation_history := conversation_history self2 @
                                    [bot_message bot_response]\<rparr>;
                          self4 = self3\<lparr>current_step := current_step self3 + 1\<rparr>
                      in case and_then (current_flow self4)
                                (\<lambda>flow. Inr (current_step self4 \<ge> int (length flow))) of
                           Inl e \<Rightarrow> (self4, Inl e)
                         | Inr is_complete \<Rightarrow>
                             if \<not> is_complete
                             then case get_current_question self4 of
                                    Inl e \<Rightarrow> (self4, Inl e)
                                  | Inr None \<Rightarrow> (self4, Inr (True, Some bot_response, is_complete))
                                  | Inr (Some next_question) \<Rightarrow>
                                      (self4\<lparr>conversation_history := conversation_history self4 @
                                                [bot_message (q_text next_question)]\<rparr>,
                                       Inr (True, Some (bot_response @ ''\<newline>\<newline>'' @ q_text next_question),
                                            is_complete))
                             else (self4\<lparr>conversation_history := conversation_history self4 @
                                            [bot_message completion_message]\<rparr>,
                                   Inr (True, Some (bot_response @ ''\<newline>\<newline>'' @ completion_message),
                                        is_complete))))"

text \<open>\<^verbatim>\<open>get_session_progress\<close>: the empty dictionary without a condition, else the
  dictionary below. The percentage divides by the number of questions.\<close>

record progress =
  p_condition :: string
  p_personality :: string
  p_current_step :: int
  p_total_steps :: nat
  p_progress_percentage :: rat
  p_responses_completed :: nat
  p_session_complete :: bool

definition get_session_progress :: "'m chatbot \<Rightarrow> py_error + progress option" where
  "get_session_progress self =
     (case current_condition self of
        None \<Rightarrow> Inr None
      | Some condition \<Rightarrow>
          if condition = [] then Inr None
          else and_then (current_flow self) (\<lambda>flow.
            let total_questions = length flow
            in if total_questions = 0 then Inl ZeroDivisionError
               else Inr (Some
                 \<lparr>p_condition = condition,
                  p_personality = current_personality self,
                  p_current_step = current_step self,
                  p_total_steps = total_questions,
                  p_progress_percentage =
                    fmul (fdiv (of_int (current_step self)) (of_nat total_questions)) 100,
                  p_responses_completed = length (user_responses self),
                  p_session_complete = (current_step self \<ge> int total_questions)\<rparr>)))"

text \<open>Submitting a list of inputs one after the other, as long as no call raises; the result
  is the last object and the returned triples.\<close>

fun submit_all ::
    "'m session_manager_class \<Rightarrow> 'm chatbot \<Rightarrow> string list
       \<Rightarrow> 'm chatbot \<times> (py_error + (bool \<times> string option \<times> bool) list)" where
  "submit_all sm self [] = (self, Inr [])"
| "submit_all sm self (user_input # rest) =
     (case process_user_response sm self user_input of
        (self', Inl e) \<Rightarrow> (self', Inl e)
      | (self', Inr r) \<Rightarrow>
          (case submit_all sm self' rest of
             (self'', Inl e) \<Rightarrow> (self'', Inl e)
           | (self'', Inr rs) \<Rightarrow> (self'', Inr (r # rs))))"

text \<open>Two session managers without a state of their own, for the examples below: the methods
  of the first return, and \<^verbatim>\<open>add_response\<close> of the second raises.\<close>

definition returning_create_session :: "unit \<Rightarrow> string \<Rightarrow> string \<Rightarrow> unit \<times> py_error option" where
  "returning_create_session manager personality condition = (manager, None)"

definition returning_add_response ::
    "unit \<Rightarrow> string \<Rightarrow> string \<Rightarrow> string \<Rightarrow> string \<Rightarrow> unit \<times> py_error option" where
  "returning_add_response manager question_id question_text user_input category = (manager, None)"


definition returning_manager :: "unit session_manager_class" where
  "returning_manager =
     \<lparr>sm_create_session = returning_create_session, sm_add_response = returning_add_response\<rparr>"


section \<open>Journal generator\<close>

text \<open>An entry of \<^verbatim>\<open>condition_templates\<close>.\<close>

record condition_template =
  title :: string
  intro :: string
  summary_template :: string

text \<open>An f-string whose replacement fields all subscript one dictionary: the pieces of text
  and the keys, from left to right. A key that is missing raises \<^verbatim>\<open>KeyError\<close>.\<close>

datatype fseg = Txt string | Key string

fun render_fstring :: "(string \<times> string) list \<Rightarrow> fseg list \<Rightarrow> py_error + string" where
  "render_fstring d [] = Inr []"
| "render_fstring d (Txt t # rest) = and_then (render_fstring d rest) (\<lambda>r. Inr (t @ r))"
| "render_fstring d (Key k # rest) =
     and_then (dict_item d k) (\<lambda>v. and_then (render_fstring d rest) (\<lambda>r. Inr (v @ r)))"

text \<open>The dictionary of \<^verbatim>\<open>_load_condition_templates\<close> and the f-strings of
  \<^verbatim>\<open>_create_stress_summary\<close>, \<^verbatim>\<open>_create_anxiety_summary\<close> and
  \<^verbatim>\<open>_create_low_mood_summary\<close>.\<close>

definition stress_journal_template :: condition_template where
  \<open>stress_journal_template =
     \<lparr>title = ''Stress Management CBT Session'',
      intro = ''This session explored stress triggers and coping strategies using the CBT 5-Part Model.'',
      summary_template = ''You recently experienced a stressful situation involving {situation}, which triggered feelings of {emotions}. At the time, you thought: "{hot_thought}," which contributed to your distress. This thought was linked to underlying assumptions and influenced by thinking patterns like {distortions}.\<newline>\<newline>Emotionally, this led to {emotions}, and behaviorally, you responded with {behaviors}. Physically, your body reacted with {physical_symptoms}, highlighting the stress-body connection.\<newline>\<newline>When evaluating this thought, you identified both supporting evidence and alternative perspectives, leading to a more compassionate reframe: "{balanced_thought}," which you found {believability}% believable. This reframe, if strengthened, could influence your feelings and actions.\<newline>\<newline>A deeper belief surfaced during this process: {deeper_belief}. You identified a new, empowering belief: {new_belief}, supported by personal evidence.\<newline>\<newline>As a next step, you committed to {action_plan} and identified coping strategies. Recognizing what's within your control enables a shift toward healthier responses.\<newline>\<newline>This reflection shows that stress is not just about events, but how we interpret and respond to them. You've taken meaningful steps toward breaking the stress cycle.''\<rparr>\<close>

definition anxiety_journal_template :: condition_template where
  \<open>anxiety_journal_template =
     \<lparr>title = ''Anxiety Management CBT Session'',
      intro = ''This session examined anxious thoughts and developed confidence-building strategies.'',
      summary_template = ''You experienced anxiety related to {situation}, with the core fear being {fear}. Your most distressing thought was: "{hot_thought}," which predicted {predictions}.\<newline>\<newline>This anxiety manifested emotionally as {emotions} (rated {intensity}/100), led to behaviors like {behaviors}, and created physical symptoms including {physical_symptoms}.\<newline>\<newline>Through evidence examination, you discovered that {evidence_against} contradicted your anxious predictions, while the actual supporting evidence was {evidence_for}. This led to a more balanced perspective: "{balanced_thought}," which you believe {belief_rating}% right now.\<newline>\<newline>You identified safety behaviors like {safety_behaviors} that, while providing short-term relief, may maintain anxiety long-term. As an alternative, you planned to {small_step} to gradually face your fears.\<newline>\<newline>A deeper belief contributing to your anxiety was: {deeper_belief}. You're working toward a new, empowering belief: "{new_belief}," supported by evidence from your life experiences.\<newline>\<newline>Key learning: {key_learning}. Your commitment for this week: {weekly_action}.\<newline>\<newline>Remember: anxiety often involves overestimating danger and underestimating your ability to cope. You have more resilience than your anxious mind suggests.''\<rparr>\<close>

definition lowMood_journal_template :: condition_template where
  \<open>lowMood_journal_template =
     \<lparr>title = ''Low Mood Recovery CBT Session'',
      intro = ''This session addressed negative thoughts and focused on rebuilding positive momentum.'',
      summary_template = ''Your low mood was triggered by {trigger}, leading to the painful thought: "{hot_thought}." This thought meant {meaning} to you about yourself, your life, or your future.\<newline>\<newline>Emotionally, you experienced {emotions} (rated {mood_rating}/100). Behaviorally, you {behaviors}, which may have included withdrawal or reduced activity. Physically, you noticed {physical_symptoms}.\<newline>\<newline>You identified negative beliefs about yourself: {negative_beliefs}, and recognized thinking errors like {thinking_errors}. Through evidence examination, you found that {evidence_against} contradicted your harsh self-judgments, while actual supporting evidence was {evidence_for}.\<newline>\<newline>This led to a more balanced, compassionate perspective: "{balanced_perspective}," which you believe {belief_strength}% currently.\<newline>\<newline>For behavioral activation, you identified that {positive_activities} gave you some sense of pleasure, accomplishment, or connection. Tomorrow, you plan to {tomorrow_activity}, anticipating obstacles like {obstacles}.\<newline>\<newline>A core belief contributing to your low mood was: {deep_belief}. You're developing a healthier belief: "{new_belief}," supported by evidence like {evidence_list}.\<newline>\<newline>Your 24-hour commitment: {next_24_hours}. Support available: {support}. Future reminder: {future_reminder}.\<newline>\<newline>Remember: depression often involves a harsh inner critic. You've shown courage by challenging these thoughts and taking steps toward self-compassion and renewed activity.''\<rparr>\<close>

definition load_condition_templates :: "(string \<times> condition_template) list" where
  "load_condition_templates =
     [(''stress'', stress_journal_template),
      (''anxiety'', anxiety_journal_template),
      (''lowMood'', lowMood_journal_template)]"

definition stress_summary_parts :: "fseg list" where
  \<open>stress_summary_parts =
   [Txt ''Through this CBT exploration, you examined a stressful experience involving **'',
    Key ''situation'',
    Txt ''**. Your most distressing thought was: *"'',
    Key ''hot_thought'',
    Txt ''"*, which contributed to feelings of **'',
    Key ''emotions'',
    Txt ''** and led to behaviors such as **'',
    Key ''behaviors'',
    Txt ''**.\<newline>\<newline>Physically, you experienced **'',
    Key ''physical'',
    Txt ''**, demonstrating the mind-body connection in stress responses.\<newline>\<newline>By examining the evidence and challenging unhelpful thinking patterns, you developed a more balanced perspective: *"'',
    Key ''balanced_thought'',
    Txt ''"*. You also identified a new, empowering belief: *"'',
    Key ''new_belief'',
    Txt ''"* and committed to taking action through **'',
    Key ''helpful_action'',
    Txt ''**.\<newline>\<newline>This reflection demonstrates that stress involves not just external events, but how we interpret and respond to them. You've gained valuable insights for managing future stressful situations more effectively.'']\<close>

definition anxiety_summary_parts :: "fseg list" where
  \<open>anxiety_summary_parts =
   [Txt ''This session explored your anxiety around **'',
    Key ''situation'',
    Txt ''**, with your core fear being **'',
    Key ''fear'',
    Txt ''**. Your most distressing thought was: *"'',
    Key ''hot_thought'',
    Txt ''"*, which triggered **'',
    Key ''emotions'',
    Txt ''** and led to behaviors like **'',
    Key ''behaviors'',
    Txt ''**.\<newline>\<newline>You experienced physical symptoms including **'',
    Key ''physical'',
    Txt ''**, highlighting anxiety's impact on the body.\<newline>\<newline>Through evidence examination, you developed a more balanced perspective: *"'',
    Key ''balanced_thought'',
    Txt ''"*. You're working toward the empowering belief that *"'',
    Key ''new_belief'',
    Txt ''"* and have committed to taking a small step forward: **'',
    Key ''small_step'',
    Txt ''**.\<newline>\<newline>This process reveals that anxiety often involves overestimating danger while underestimating your coping abilities. You have more resilience and capability than your anxious mind suggests.'']\<close>

definition low_mood_summary_parts :: "fseg list" where
  \<open>low_mood_summary_parts =
   [Txt ''Your low mood was triggered by **'',
    Key ''trigger'',
    Txt ''**, leading to the painful thought: *"'',
    Key ''hot_thought'',
    Txt ''"*. This contributed to feelings of **'',
    Key ''emotions'',
    Txt ''** and behaviors such as **'',
    Key ''behaviors'',
    Txt ''**.\<newline>\<newline>You also noticed physical symptoms like **'',
    Key ''physical'',
    Txt ''**, showing how mood affects the entire body.\<newline>\<newline>Through compassionate self-examination, you developed a more balanced perspective: *"'',
    Key ''balanced_perspective'',
    Txt ''"*. You're cultivating the healthier belief that *"'',
    Key ''new_belief'',
    Txt ''"* and have planned to engage in **'',
    Key ''tomorrow_activity'',
    Txt ''** to support your mood.\<newline>\<newline>This reflection shows that depression often involves a harsh inner critic. By challenging these thoughts and planning positive activities, you're taking meaningful steps toward self-compassion and recovery.'']\<close>

definition condition_names :: "(string \<times> string) list" where
  "condition_names = [(''stress'', ''Stress''), (''anxiety'', ''Anxiety''), (''lowMood'', ''Low Mood'')]"

definition personality_names :: "(string \<times> string) list" where
  "personality_names =
     [(''neutral'', ''Neutral''), (''conscientiousness'', ''High Conscientiousness''),
      (''extraversion'', ''High Extraversion'')]"

text \<open>\<^verbatim>\<open>_generate_header\<close>; \<open>now_long\<close> is the formatted date and time.\<close>

definition generate_header :: "string \<Rightarrow> string \<Rightarrow> string \<Rightarrow> condition_template \<Rightarrow> string" where
  \<open>generate_header now_long condition personality template =
     ''# ''
     @ title template
     @ ''\<newline>\<newline>**Session Date:** ''
     @ now_long
     @ ''\<newline>**Condition Focus:** ''
     @ dict_get condition_names condition (str_title condition)
     @ ''\<newline>**Chatbot Personality:** ''
     @ dict_get personality_names personality (str_title personality)
     @ ''\<newline>**Session Type:** Cognitive Behavioral Therapy (CBT) Journaling\<newline>\<newline>---\<newline>\<newline>## Session Overview\<newline>\<newline>''
     @ intro template
     @ ''\<newline>\<newline>---\<newline>\<newline>''\<close>

text \<open>An entry of the lists that \<^verbatim>\<open>_generate_sections\<close> collects by category.\<close>

record section_item =
  item_question :: string
  item_answer :: string
  item_id :: string

text \<open>\<^verbatim>\<open>categories[category].append(item)\<close> on the \<^verbatim>\<open>defaultdict(list)\<close>: a new category
  is added after the others.\<close>

definition append_item ::
    "string \<Rightarrow> section_item \<Rightarrow> (string \<times> section_item list) list \<Rightarrow> (string \<times> section_item list) list" where
  "append_item category item categories =
     AList.update category (dict_get categories category [] @ [item]) categories"

fun collect_categories ::
    "(string \<times> string) list \<Rightarrow> question list \<Rightarrow> (string \<times> section_item list) list
       \<Rightarrow> (string \<times> section_item list) list" where
  "collect_categories responses [] categories = categories"
| "collect_categories responses (question # questions) categories =
     collect_categories responses questions
       (case map_of responses (q_id question) of
          None \<Rightarrow> categories
        | Some answer \<Rightarrow>
            append_item (q_category question)
              \<lparr>item_question = q_text question, item_answer = answer, item_id = q_id question\<rparr>
              categories)"

definition render_item :: "section_item \<Rightarrow> string" where
  \<open>render_item item =
     ''**Q:** '' @ item_question item @ ''\<newline>\<newline>'' @ ''**A:** '' @ item_answer item @ ''\<newline>\<newline>''\<close>

definition render_category :: "string \<times> section_item list \<Rightarrow> string" where
  \<open>render_category entry =
     ''## '' @ fst entry @ ''\<newline>\<newline>'' @ concat (map render_item (snd entry)) @ ''---\<newline>\<newline>''\<close>

text \<open>\<^verbatim>\<open>_generate_sections\<close>; the flows are those of the chatbot passed in.\<close>

definition generate_sections ::
    "string \<Rightarrow> (string \<times> string) list \<Rightarrow> (string \<times> question list) list \<Rightarrow> py_error + string" where
  "generate_sections condition responses flows =
     and_then (dict_item flows condition) (\<lambda>questions.
       Inr (concat (map render_category (collect_categories responses questions []))))"

definition extract_key_responses :: "string \<Rightarrow> (string \<times> string) list \<Rightarrow> (string \<times> string) list" where
  "extract_key_responses condition responses =
     dict_get
   [(''stress'',
      [(''situation'', dict_get responses ''situation'' ''a challenging situation''),
       (''hot_thought'', dict_get responses ''hot_thought'' ''a distressing thought''),
       (''emotions'', dict_get responses ''emotions'' ''difficult emotions''),
       (''behaviors'', dict_get responses ''behaviors'' ''stress responses''),
       (''physical'', dict_get responses ''physical'' ''physical symptoms''),
       (''balanced_thought'', dict_get responses ''balanced_thought'' ''a more balanced perspective''),
       (''new_belief'', dict_get responses ''new_belief'' ''a healthier belief''),
       (''helpful_action'', dict_get responses ''helpful_action'' ''positive action steps'')]),
    (''anxiety'',
      [(''situation'', dict_get responses ''situation'' ''an anxiety-provoking situation''),
       (''hot_thought'', dict_get responses ''hot_thought'' ''an anxious thought''),
       (''fear'', dict_get responses ''fear'' ''a specific fear''),
       (''emotions'', dict_get responses ''emotions'' ''anxious feelings''),
       (''behaviors'', dict_get responses ''behaviors'' ''anxiety responses''),
       (''physical'', dict_get responses ''physical'' ''physical anxiety symptoms''),
       (''balanced_thought'', dict_get responses ''balanced_thought'' ''a more realistic perspective''),
       (''new_belief'', dict_get responses ''new_belief'' ''an empowering belief''),
       (''small_step'', dict_get responses ''small_step'' ''a gradual exposure step'')]),
    (''lowMood'',
      [(''trigger'', dict_get responses ''trigger'' ''a mood trigger''),
       (''hot_thought'', dict_get responses ''hot_thought'' ''a painful thought''),
       (''emotions'', dict_get responses ''emotions'' ''low mood feelings''),
       (''behaviors'', dict_get responses ''behaviors'' ''mood-related behaviors''),
       (''physical'', dict_get responses ''physical'' ''physical symptoms''),
       (''balanced_perspective'', dict_get responses ''balanced_perspective'' ''a compassionate perspective''),
       (''new_belief'', dict_get responses ''new_belief'' ''a healthier self-belief''),
       (''tomorrow_activity'', dict_get responses ''tomorrow_activity'' ''a mood-lifting activity'')])]
       condition []"

definition create_stress_summary :: "(string \<times> string) list \<Rightarrow> py_error + string" where
  "create_stress_summary key_responses = render_fstring key_responses stress_summary_parts"

definition create_anxiety_summary :: "(string \<times> string) list \<Rightarrow> py_error + string" where
  "create_anxiety_summary key_responses = render_fstring key_responses anxiety_summary_parts"

definition create_low_mood_summary :: "(string \<times> string) list \<Rightarrow> py_error + string" where
  "create_low_mood_summary key_responses = render_fstring key_responses low_mood_summary_parts"

text \<open>\<^verbatim>\<open>_generate_summary\<close>; the argument \<^verbatim>\<open>template\<close> is not read.\<close>

definition generate_summary ::
    "string \<Rightarrow> (string \<times> string) list \<Rightarrow> condition_template \<Rightarrow> py_error + string" where
  \<open>generate_summary condition responses template =
     (let key_responses = extract_key_responses condition responses
      in and_then
           (if condition = ''stress'' then create_stress_summary key_responses
            else if condition = ''anxiety'' then create_anxiety_summary key_responses
            else if condition = ''lowMood'' then create_low_mood_summary key_responses
            else Inr [])
           (\<lambda>summary. Inr (''## Session Summary\<newline>\<newline>'' @ summary @ ''\<newline>---\<newline>\<newline>'')))\<close>

definition reflection_text :: string where
  \<open>reflection_text =
     ''## Key Insights and Reflections\<newline>\<newline>Through this CBT journaling process, several important patterns and insights emerged:\<newline>\<newline>### Thought-Emotion-Behavior Connection\<newline>This session highlighted the interconnected nature of thoughts, emotions, and behaviors. By identifying and examining automatic thoughts, you gained awareness of how cognitive patterns influence your emotional and behavioral responses.\<newline>\<newline>### Evidence-Based Thinking\<newline>You practiced evaluating thoughts objectively, considering both supporting and contradicting evidence. This skill helps develop more balanced, realistic perspectives rather than accepting thoughts at face value.\<newline>\<newline>### Cognitive Restructuring\<newline>You successfully challenged unhelpful thinking patterns and developed more adaptive, compassionate ways of viewing yourself and your situation.\<newline>\<newline>### Actionable Insights\<newline>You identified concrete steps you can take to apply these insights in daily life, moving from reflection to practical implementation.\<newline>\<newline>---\<newline>\<newline>''\<close>

text \<open>\<^verbatim>\<open>_generate_reflection_section\<close>: the new belief if there is one, and the first of the
  three action keys that has an answer.\<close>

definition generate_reflection_section :: "(string \<times> string) list \<Rightarrow> string" where
  \<open>generate_reflection_section responses =
     reflection_text
     @ (case map_of responses ''new_belief'' of
          None \<Rightarrow> []
        | Some new_belief \<Rightarrow>
            ''### New Empowering Belief\<newline>*"''
            @ new_belief
            @ ''"*\<newline>\<newline>This new belief represents a significant shift toward self-compassion and realistic self-assessment.\<newline>\<newline>'')
     @ (case List.find (\<lambda>key. map_of responses key \<noteq> None)
               [''helpful_action'', ''small_step'', ''tomorrow_activity''] of
          None \<Rightarrow> []
        | Some action_key \<Rightarrow>
            (case map_of responses action_key of
               None \<Rightarrow> []
             | Some action \<Rightarrow>
                 ''### Committed Action\<newline>**''
                 @ action
                 @ ''**\<newline>\<newline>This commitment represents your intention to translate insights into meaningful behavioral change.\<newline>\<newline>''))
     @ ''---\<newline>\<newline>''\<close>

definition footer_messages :: "(string \<times> string) list" where
  \<open>footer_messages =
     [(''neutral'', ''Remember that CBT is a process of ongoing practice. The insights gained today provide a foundation for continued growth and self-understanding.''),
      (''conscientiousness'', ''Your systematic approach to this CBT process demonstrates excellent commitment to personal development. Consistent application of these evidence-based techniques will yield significant long-term benefits for your mental health and wellbeing.''),
      (''extraversion'', (''What an amazing journey of self-discovery you've completed today! Your openness and courage in exploring these thoughts and feelings is truly inspiring. Remember, every small step counts, and you're building something really meaningful for your mental health! '' @ [CHR 0xC3, CHR 0xB0, CHR 0xC5, CHR 0xB8, CHR 0xC5, CHR 0x92, CHR 0xC5, CHR 0xB8]))]\<close>

text \<open>\<^verbatim>\<open>_generate_footer\<close>; \<open>now_date\<close> is the formatted date.\<close>

definition generate_footer :: "string \<Rightarrow> string \<Rightarrow> py_error + string" where
  \<open>generate_footer now_date personality =
     and_then (dict_item footer_messages ''neutral'') (\<lambda>neutral. Inr (
       ''## Final Reflection\<newline>\<newline>''
       @ dict_get footer_messages personality neutral
       @ ''\<newline>\<newline>### Next Steps\<newline>1. **Review** this journal entry regularly to reinforce insights\<newline>2. **Practice** the balanced thoughts and coping strategies identified\<newline>3. **Implement** the action steps you've committed to\<newline>4. **Monitor** your progress and celebrate small wins\<newline>5. **Return** to these techniques when facing similar challenges\<newline>\<newline>### Session Completion\<newline>**Date:** ''
       @ now_date
       @ ''\<newline>**Duration:** CBT Therapeutic Writing Session\<newline>**Focus:** Cognitive restructuring and insight development\<newline>\<newline>---\<newline>\<newline>*This journal entry was generated from your CBT session responses and serves as a personal reference for ongoing mental health support. Keep this record for future reflection and progress tracking.*''))\<close>

text \<open>\<^verbatim>\<open>create_journal\<close>. The template of the stress condition is the default of the lookup
  and is fetched first.\<close>

definition create_journal ::
    "string \<Rightarrow> string \<Rightarrow> string \<Rightarrow> string \<Rightarrow> (string \<times> string) list \<Rightarrow> 'm chatbot \<Rightarrow> py_error + string" where
  "create_journal now_long now_date condition personality responses chatbot =
     and_then (dict_item load_condition_templates ''stress'') (\<lambda>stress_template.
       let template = dict_get load_condition_templates condition stress_template;
           header = generate_header now_long condition personality template
       in and_then (generate_sections condition responses (cbt_flows chatbot)) (\<lambda>sections.
          and_then (generate_summary condition responses template) (\<lambda>summary.
          let reflection = generate_reflection_section responses
          in and_then (generate_footer now_date personality) (\<lambda>footer.
             Inr (header @ sections @ summary @ reflection @ footer)))))"

text \<open>\<^verbatim>\<open>_calculate_completion_percentage\<close> and its table of expected answer counts.\<close>

definition expected_counts :: "(string \<times> nat) list" where
  "expected_counts = [(''stress'', 28), (''anxiety'', 30), (''lowMood'', 29)]"

definition calculate_completion_percentage :: "string \<Rightarrow> (string \<times> string) list \<Rightarrow> rat" where
  "calculate_completion_percentage condition responses =
     (let expected = dict_get expected_counts condition 0;
          actual = length responses
      in if expected > 0 then fmul (fdiv (of_nat actual) (of_nat expected)) 100 else 0)"

section \<open>The validation rules as the specification words them\<close>

text \<open>
  The rules of the specification in their order: the result of the first rule that fails, and
  acceptance if none does. Words are what white space separates; the unsafe-content patterns
  are the five of the validator, matched on the lower-cased text; a minimal acknowledgement is
  a text of at most two words that, lower-cased, is one of the thirteen listed ones; the words
  are compared in lower case when the unique ones are counted, and the ratio is compared with
  three tenths as a fraction, without rounding.
\<close>

datatype reason =
  Empty
| Too_short
| Too_long
| Too_few_words
| Too_many_words
| Requires_professional_support
| Needs_more_detail
| Needs_more_varied_response

datatype verdict = Accept | Reject reason

definition minimal_acknowledgements :: "string list" where
  "minimal_acknowledgements =
     [''yes'', ''no'', ''maybe'', ''idk'', ''i don't know'', ''nothing'', ''not sure'', ''dunno'',
      ''nope'', ''yep'', ''fine'', ''ok'', ''okay'']"

definition validate_spec :: "string \<Rightarrow> verdict" where
  "validate_spec text =
     (let trimmed = strip text; words = split trimmed
      in if list_all isspace text then Reject Empty
         else if length trimmed < 10 then Reject Too_short
         else if length trimmed > 2000 then Reject Too_long
         else if length words < 3 then Reject Too_few_words
         else if length words > 500 then Reject Too_many_words
         else if list_ex (\<lambda>pattern. re_search pattern (lower trimmed)) inappropriate_patterns
           then Reject Requires_professional_support
         else if length words \<le> 2 \<and> lower trimmed \<in> set minimal_acknowledgements
           then Reject Needs_more_detail
         else if length words > 5
                 \<and> (of_nat (card (set (map lower words))) :: rat) / of_nat (length words) < 3 / 10
           then Reject Needs_more_varied_response
         else Accept)"

text \<open>The message that the validator returns for each reason, and the pair it returns for a
  verdict.\<close>

fun reason_message :: "reason \<Rightarrow> string" where
  "reason_message Empty = ''Please provide a response to continue.''"
| "reason_message Too_short = ''Please provide a more detailed response (at least 10 characters).''"
| "reason_message Too_long = ''Response is too long. Please keep it under 2000 characters.''"
| "reason_message Too_few_words = ''Please provide at least 3 words in your response.''"
| "reason_message Too_many_words = ''Response is too long. Please keep it under 500 words.''"
| "reason_message Requires_professional_support = ''Your response contains content that requires professional support. Please consider reaching out to a mental health professional or crisis helpline.''"
| "reason_message Needs_more_detail = ''Please provide a more detailed response to help us understand your experience better.''"
| "reason_message Needs_more_varied_response = ''Please provide a more varied response with different thoughts and details.''"

fun verdict_result :: "verdict \<Rightarrow> bool \<times> string option" where
  "verdict_result Accept = (True, None)"
| "verdict_result (Reject r) = (False, Some (reason_message r))"

section \<open>The quality score as the specification words it\<close>

text \<open>
  The specification clamps a value between two bounds, takes the word-count component
  \<open>clamp((wordCount - 5) / 95 * 100, 0, 100)\<close> and adds the five components, each times its
  weight, in the order in which it lists them. The operations are those of binary64, as in
  the program.
\<close>

definition clamp :: "rat \<Rightarrow> rat \<Rightarrow> rat \<Rightarrow> rat" where
  "clamp x lo hi = max lo (min hi x)"

definition word_count_component :: "nat \<Rightarrow> rat" where
  "word_count_component n = clamp (fmul (fdiv (of_int (int n - 5)) 95) 100) 0 100"

definition weighted_sum :: "rat \<Rightarrow> rat \<Rightarrow> rat \<Rightarrow> rat \<Rightarrow> rat \<Rightarrow> rat" where
  "weighted_sum word_component depth specificity insight relevance =
     fadd (fadd (fadd (fadd (fmul word_component (fl (10 / 100)))
                            (fmul depth (fl (25 / 100))))
                      (fmul specificity (fl (20 / 100))))
                (fmul insight (fl (25 / 100))))
          (fmul relevance (fl (20 / 100)))"

section \<open>Facts about the string functions\<close>

lemma ord_char_of: "ord (char_of (n::nat)) = n mod 256"
  by (simp add: ord_def)

lemma isspace_lower_char: "isspace (lower_char c) = isspace c"
  by (auto simp: isspace_def lower_char_def ord_char_of)

lemma split_from_lower:
  "split_from (map lower_char cur) (map lower_char s) = map (map lower_char) (split_from cur s)"
proof (induction s arbitrary: cur)
  case Nil
  show ?case by simp
next
  case (Cons a s)
  show ?case
    using Cons [of "[]"] Cons [of "cur @ [a]"] by (simp add: isspace_lower_char)
qed

lemma split_lower: "split (lower s) = map lower (split s)"
  using split_from_lower [of "[]" s] by (simp add: split_def lower_def)

lemma length_split_lower: "length (split (lower s)) = length (split s)"
  by (simp add: split_lower)

lemma re_split_from_no_sep:
  "\<forall>c \<in> set s. \<not> P c \<Longrightarrow> re_split_from P b cur s = [cur @ s]"
  by (induction s arbitrary: b cur) simp_all

lemma str_nat_10: "str_nat 10 = ''10''"
  by code_simp

lemma str_nat_2000: "str_nat 2000 = ''2000''"
  by code_simp

lemma str_nat_3: "str_nat 3 = ''3''"
  by code_simp

lemma str_nat_500: "str_nat 500 = ''500''"
  by code_simp

section \<open>Facts about rounding\<close>

lemma round_half_even_cases:
  "round_half_even x = \<lfloor>x\<rfloor> \<or> round_half_even x = \<lfloor>x\<rfloor> + 1"
  by (simp add: round_half_even_def Let_def)

lemma round_half_even_ge_floor: "\<lfloor>x\<rfloor> \<le> round_half_even x"
  using round_half_even_cases [of x] by linarith

lemma round_half_even_le_floor: "round_half_even x \<le> \<lfloor>x\<rfloor> + 1"
  using round_half_even_cases [of x] by linarith

lemma round_half_even_of_int: "round_half_even (of_int n) = n"
  by (simp add: round_half_even_def Let_def)

lemma round_half_even_mono:
  assumes "x \<le> y"
  shows "round_half_even x \<le> round_half_even y"
proof (cases "\<lfloor>x\<rfloor> < \<lfloor>y\<rfloor>")
  case True
  then show ?thesis
    using round_half_even_le_floor [of x] round_half_even_ge_floor [of y] by linarith
next
  case False
  then have eq: "\<lfloor>x\<rfloor> = \<lfloor>y\<rfloor>"
    using floor_mono [OF assms] by linarith
  then have "x - of_int \<lfloor>x\<rfloor> \<le> y - of_int \<lfloor>y\<rfloor>"
    using assms by simp
  then show ?thesis
    using eq by (auto simp: round_half_even_def Let_def)
qed

lemma binade_bounds:
  assumes "0 < x"
  shows "2 powi binade x \<le> x \<and> x < 2 powi (binade x + 1)"
proof -
  obtain a b where q: "quotient_of x = (a, b)" by (cases "quotient_of x")
  have b: "0 < b" using quotient_of_denom_pos [OF q] .
  have x: "x = of_int a / of_int b" using quotient_of_div [OF q] .
  have a: "0 < a" using assms b x by (simp add: zero_less_divide_iff)
  define la where "la = bitlen a"
  define lb where "lb = bitlen b"
  have la1: "1 \<le> la" and lb1: "1 \<le> lb"
    using a b bitlen_eq_zero_iff [of a] bitlen_eq_zero_iff [of b] bitlen_nonneg [of a] bitlen_nonneg [of b]
    unfolding la_def lb_def by linarith+
  have ba: "2 ^ nat (la - 1) \<le> a" "a < 2 ^ nat la"
    using bitlen_bounds [OF a] unfolding la_def by auto
  have bb: "2 ^ nat (lb - 1) \<le> b" "b < 2 ^ nat lb"
    using bitlen_bounds [OF b] unfolding lb_def by auto
  have ra: "(2::rat) powi (la - 1) \<le> of_int a" "of_int a < (2::rat) powi la"
  proof -
    have "(2::rat) powi (la - 1) = of_int (2 ^ nat (la - 1))"
      using la1 by (simp add: power_int_nonneg_exp)
    also have "\<dots> \<le> of_int a" using ba(1) by (simp only: of_int_le_iff)
    finally show "(2::rat) powi (la - 1) \<le> of_int a" .
    have "(of_int a :: rat) < of_int (2 ^ nat la)" using ba(2) by (simp only: of_int_less_iff)
    also have "\<dots> = (2::rat) powi la"
      using la1 by (simp add: power_int_nonneg_exp)
    finally show "of_int a < (2::rat) powi la" .
  qed
  have rb: "(2::rat) powi (lb - 1) \<le> of_int b" "of_int b < (2::rat) powi lb"
  proof -
    have "(2::rat) powi (lb - 1) = of_int (2 ^ nat (lb - 1))"
      using lb1 by (simp add: power_int_nonneg_exp)
    also have "\<dots> \<le> of_int b" using bb(1) by (simp only: of_int_le_iff)
    finally show "(2::rat) powi (lb - 1) \<le> of_int b" .
    have "(of_int b :: rat) < of_int (2 ^ nat lb)" using bb(2) by (simp only: of_int_less_iff)
    also have "\<dots> = (2::rat) powi lb"
      using lb1 by (simp add: power_int_nonneg_exp)
    finally show "of_int b < (2::rat) powi lb" .
  qed
  have bpos: "(0::rat) < of_int b" using b by simp
  have lower: "(2::rat) powi (la - lb - 1) < x"
  proof -
    have "(2::rat) powi (la - lb - 1) = 2 powi (la - 1) / 2 powi lb"
      by (simp add: power_int_diff)
    also have "\<dots> \<le> of_int a / 2 powi lb"
      using ra(1) by (simp add: divide_right_mono)
    also have "\<dots> < of_int a / of_int b"
      using rb(2) a bpos by (simp add: divide_strict_left_mono)
    finally show ?thesis using x by simp
  qed
  have upper: "x < (2::rat) powi (la - lb + 1)"
  proof -
    have "x = of_int a / of_int b" by (rule x)
    also have "\<dots> < 2 powi la / of_int b"
      using ra(2) bpos by (simp add: divide_strict_right_mono)
    also have "\<dots> \<le> 2 powi la / 2 powi (lb - 1)"
      using rb(1) bpos by (intro divide_left_mono) simp_all
    also have "\<dots> = (2::rat) powi (la - lb + 1)"
      by (simp add: power_int_diff power_int_add)
    finally show ?thesis .
  qed
  have bin: "binade x = (if 2 powi (la - lb) \<le> x then la - lb else la - lb - 1)"
    by (simp add: binade_def q la_def lb_def Let_def)
  show ?thesis
  proof (cases "2 powi (la - lb) \<le> x")
    case True
    then show ?thesis using bin upper by simp
  next
    case False
    then have lt: "x < 2 powi (la - lb)" by simp
    have b1: "binade x = la - lb - 1" using bin False by simp
    have "2 powi binade x \<le> x" using lower b1 by simp
    moreover have "x < 2 powi (binade x + 1)" using lt b1 by simp
    ultimately show ?thesis by simp
  qed
qed

lemma fl_pos_eq:
  "0 < x \<Longrightarrow>
   fl x = of_int (round_half_even (x / 2 powi (binade x - 52))) * 2 powi (binade x - 52)"
  by (simp add: fl_def Let_def)

lemma fl_nonneg: "0 \<le> x \<Longrightarrow> 0 \<le> fl x"
proof (cases "x = 0")
  case True
  then show ?thesis by (simp add: fl_def)
next
  case False
  assume "0 \<le> x"
  then have pos: "0 < x" using False by simp
  have "0 \<le> x / 2 powi (binade x - 52)" using pos by simp
  then have "0 \<le> \<lfloor>x / 2 powi (binade x - 52)\<rfloor>" by simp
  then have "0 \<le> round_half_even (x / 2 powi (binade x - 52))"
    using round_half_even_ge_floor [of "x / 2 powi (binade x - 52)"] by linarith
  then show ?thesis using pos by (simp add: fl_pos_eq)
qed

lemma fl_binade_bounds:
  assumes "0 < x"
  shows "2 powi binade x \<le> fl x \<and> fl x \<le> 2 powi (binade x + 1)"
proof -
  let ?k = "binade x"
  let ?e = "?k - 52"
  have p: "(0::rat) < 2 powi ?e" by simp
  have kb: "2 powi ?k \<le> x" "x < 2 powi (?k + 1)"
    using binade_bounds [OF assms] by auto
  have split1: "(2::rat) powi ?k = 2 ^ 52 * 2 powi ?e"
    using power_int_add [of "2::rat" 52 ?e] by simp
  have split2: "(2::rat) powi (?k + 1) = 2 ^ 53 * 2 powi ?e"
    using power_int_add [of "2::rat" 53 ?e] by (simp add: add.commute)
  have lo: "(2::rat) ^ 52 \<le> x / 2 powi ?e"
    using kb(1) p split1 by (simp add: pos_le_divide_eq)
  have hi: "x / 2 powi ?e \<le> (2::rat) ^ 53"
    using kb(2) p split2 by (simp add: pos_divide_le_eq)
  have "round_half_even (of_int (2 ^ 52)) \<le> round_half_even (x / 2 powi ?e)"
    using lo by (intro round_half_even_mono) simp
  then have rlo: "2 ^ 52 \<le> round_half_even (x / 2 powi ?e)"
    by (simp only: round_half_even_of_int)
  have "round_half_even (x / 2 powi ?e) \<le> round_half_even (of_int (2 ^ 53))"
    using hi by (intro round_half_even_mono) simp
  then have rhi: "round_half_even (x / 2 powi ?e) \<le> 2 ^ 53"
    by (simp only: round_half_even_of_int)
  have "(2::rat) ^ 52 \<le> of_int (round_half_even (x / 2 powi ?e))"
    using rlo by (metis of_int_le_iff of_int_numeral of_int_power)
  then have l: "2 powi ?k \<le> fl x"
    using p by (simp add: fl_pos_eq [OF assms] split1)
  have "of_int (round_half_even (x / 2 powi ?e)) \<le> (2::rat) ^ 53"
    using rhi by (metis of_int_le_iff of_int_numeral of_int_power)
  then have u: "fl x \<le> 2 powi (?k + 1)"
    using p by (simp add: fl_pos_eq [OF assms] split2)
  show ?thesis using l u by simp
qed

lemma binade_mono:
  assumes "0 < x" and "x \<le> y"
  shows "binade x \<le> binade y"
proof (rule ccontr)
  assume "\<not> binade x \<le> binade y"
  then have "binade y + 1 \<le> binade x" by simp
  then have "(2::rat) powi (binade y + 1) \<le> 2 powi binade x"
    by (intro power_int_increasing) simp_all
  moreover have "y < 2 powi (binade y + 1)"
    using binade_bounds [of y] assms by simp
  moreover have "2 powi binade x \<le> x"
    using binade_bounds [OF assms(1)] by simp
  ultimately show False using assms(2) by linarith
qed

lemma fl_mono_pos:
  assumes "0 < x" and "x \<le> y"
  shows "fl x \<le> fl y"
proof -
  have ypos: "0 < y" using assms by simp
  have le: "binade x \<le> binade y" using assms by (rule binade_mono)
  show ?thesis
  proof (cases "binade x = binade y")
    case True
    let ?e = "binade y - 52"
    have "x / 2 powi ?e \<le> y / 2 powi ?e"
      using assms(2) by (simp add: divide_right_mono)
    then have "round_half_even (x / 2 powi ?e) \<le> round_half_even (y / 2 powi ?e)"
      by (rule round_half_even_mono)
    then have "(of_int (round_half_even (x / 2 powi ?e)) :: rat)
                 \<le> of_int (round_half_even (y / 2 powi ?e))"
      by simp
    then show ?thesis
      using True by (simp add: fl_pos_eq [OF assms(1)] fl_pos_eq [OF ypos] mult_right_mono)
  next
    case False
    then have "binade x + 1 \<le> binade y" using le by simp
    then have "(2::rat) powi (binade x + 1) \<le> 2 powi binade y"
      by (intro power_int_increasing) simp_all
    moreover have "fl x \<le> 2 powi (binade x + 1)"
      using fl_binade_bounds [OF assms(1)] by simp
    moreover have "2 powi binade y \<le> fl y"
      using fl_binade_bounds [OF ypos] by simp
    ultimately show ?thesis by linarith
  qed
qed

lemma fl_mono: "0 \<le> x \<Longrightarrow> x \<le> y \<Longrightarrow> fl x \<le> fl y"
proof (cases "x = 0")
  case True
  assume "x \<le> y"
  then have "0 \<le> fl y" using True by (intro fl_nonneg) simp
  then show ?thesis using True by (simp add: fl_def)
next
  case False
  assume "0 \<le> x" and "x \<le> y"
  then show ?thesis using False by (intro fl_mono_pos) simp_all
qed

lemma fl_10: "fmul (fl (1 / 10)) 100 = 10"
  by code_simp
lemma fl_25: "fmul (fl (25 / 100)) 100 = 25"
  by code_simp
lemma fl_20: "fmul (fl (2 / 10)) 100 = 20"
  by code_simp
lemma fl_35: "fl 35 = 35"
  by code_simp
lemma fl_55: "fl 55 = 55"
  by code_simp
lemma fl_80: "fl 80 = 80"
  by code_simp
lemma fl_100: "fl 100 = 100"
  by code_simp
lemma fl_w1: "0 \<le> fl (1 / 10)"
  by code_simp
lemma fl_w2: "0 \<le> fl (25 / 100)"
  by code_simp
lemma fl_w3: "0 \<le> fl (2 / 10)"
  by code_simp
lemma fl_gap: "fl (2998 / 10000) < fl (3 / 10)"
  by code_simp

lemma scaled_ratio_bounds:
  assumes "0 \<le> n" and "0 < d"
  shows "0 \<le> min 100 (fmul (fdiv n d) 100) \<and> min 100 (fmul (fdiv n d) 100) \<le> 100"
proof -
  have "0 \<le> n / d" using assms by simp
  then have "0 \<le> fdiv n d" unfolding fdiv_def by (rule fl_nonneg)
  then have "0 \<le> fdiv n d * 100" by simp
  then have "0 \<le> fmul (fdiv n d) 100" unfolding fmul_def by (rule fl_nonneg)
  then show ?thesis by simp
qed

lemma fmul_weight_bounds:
  assumes "0 \<le> w" and "0 \<le> x" and "x \<le> 100"
  shows "0 \<le> fmul w x \<and> fmul w x \<le> fmul w 100"
proof -
  have "0 \<le> w * x" using assms by simp
  moreover have "w * x \<le> w * 100" using assms by (simp add: mult_left_mono)
  ultimately show ?thesis unfolding fmul_def using fl_nonneg fl_mono by blast
qed

lemma fadd_bounds:
  assumes "0 \<le> a" and "a \<le> A" and "0 \<le> b" and "b \<le> B"
  shows "0 \<le> fadd a b \<and> fadd a b \<le> fl (A + B)"
proof -
  have "0 \<le> a + b" using assms by simp
  moreover have "a + b \<le> A + B" using assms by simp
  ultimately show ?thesis unfolding fadd_def using fl_nonneg fl_mono by blast
qed

lemma weighted_sum_bounds:
  assumes ws: "0 \<le> ws" "ws \<le> 100" and ed: "0 \<le> ed" "ed \<le> 100"
    and sp: "0 \<le> sp" "sp \<le> 100" and il: "0 \<le> il" "il \<le> 100"
    and cr: "0 \<le> cr" "cr \<le> 100"
  shows "0 \<le> fadd (fadd (fadd (fadd (fmul (fl (1 / 10)) ws) (fmul (fl (25 / 100)) ed))
                                 (fmul (fl (2 / 10)) sp))
                           (fmul (fl (25 / 100)) il))
                     (fmul (fl (2 / 10)) cr)
       \<and> fadd (fadd (fadd (fadd (fmul (fl (1 / 10)) ws) (fmul (fl (25 / 100)) ed))
                                 (fmul (fl (2 / 10)) sp))
                           (fmul (fl (25 / 100)) il))
                     (fmul (fl (2 / 10)) cr) \<le> 100"
proof -
  have t1: "0 \<le> fmul (fl (1 / 10)) ws" "fmul (fl (1 / 10)) ws \<le> 10"
    using fmul_weight_bounds [OF fl_w1 ws] fl_10 by simp_all
  have t2: "0 \<le> fmul (fl (25 / 100)) ed" "fmul (fl (25 / 100)) ed \<le> 25"
    using fmul_weight_bounds [OF fl_w2 ed] fl_25 by simp_all
  have t3: "0 \<le> fmul (fl (2 / 10)) sp" "fmul (fl (2 / 10)) sp \<le> 20"
    using fmul_weight_bounds [OF fl_w3 sp] fl_20 by simp_all
  have t4: "0 \<le> fmul (fl (25 / 100)) il" "fmul (fl (25 / 100)) il \<le> 25"
    using fmul_weight_bounds [OF fl_w2 il] fl_25 by simp_all
  have t5: "0 \<le> fmul (fl (2 / 10)) cr" "fmul (fl (2 / 10)) cr \<le> 20"
    using fmul_weight_bounds [OF fl_w3 cr] fl_20 by simp_all
  let ?s2 = "fadd (fmul (fl (1 / 10)) ws) (fmul (fl (25 / 100)) ed)"
  have s2: "0 \<le> ?s2" "?s2 \<le> 35"
    using fadd_bounds [OF t1 t2] fl_35 by simp_all
  let ?s3 = "fadd ?s2 (fmul (fl (2 / 10)) sp)"
  have s3: "0 \<le> ?s3" "?s3 \<le> 55"
    using fadd_bounds [OF s2 t3] fl_55 by simp_all
  let ?s4 = "fadd ?s3 (fmul (fl (25 / 100)) il)"
  have s4: "0 \<le> ?s4" "?s4 \<le> 80"
    using fadd_bounds [OF s3 t4] fl_80 by simp_all
  let ?s5 = "fadd ?s4 (fmul (fl (2 / 10)) cr)"
  have s5: "0 \<le> ?s5" "?s5 \<le> 100"
    using fadd_bounds [OF s4 t5] fl_100 by simp_all
  show ?thesis using s5 by simp
qed

section \<open>Step counts of the catalog\<close>

lemma stress_flow_length: "length stress_flow = 35"
  by (simp add: stress_flow_def)

lemma anxiety_flow_length: "length anxiety_flow = 31"
  by (simp add: anxiety_flow_def)

lemma lowMood_flow_length: "length lowMood_flow = 30"
  by (simp add: lowMood_flow_def)

lemma stress_flow_ids: "distinct (map q_id stress_flow)"
  by (simp add: stress_flow_def)

lemma anxiety_flow_ids: "distinct (map q_id anxiety_flow)"
  by (simp add: anxiety_flow_def)

lemma lowMood_flow_ids: "distinct (map q_id lowMood_flow)"
  by (simp add: lowMood_flow_def)

lemma full_stress_percentage: "fmul (fdiv 35 28) 100 = 125"
  by code_simp

text \<open>
  C1. The catalog holds 35, 31 and 30 steps for stress, anxiety and lowMood, while
  \<^verbatim>\<open>CBT_CONFIG\<close> and the expected counts of the journal generator declare 28, 30 and 29
  for the same conditions; within each flow the step ids are pairwise distinct. One answer
  for every step of the stress flow is therefore reported as 125 per cent complete.
\<close>

theorem CBT_FLOWS_step_counts:
  "map (\<lambda>(c, f). (c, length f)) CBT_FLOWS = [(''stress'', 35), (''anxiety'', 31), (''lowMood'', 30)]
   \<and> map (\<lambda>(c, k). (c, total_steps k)) CBT_CONFIG = [(''stress'', 28), (''anxiety'', 30), (''lowMood'', 29)]
   \<and> expected_counts = [(''stress'', 28), (''anxiety'', 30), (''lowMood'', 29)]
   \<and> list_all (\<lambda>(c, f). distinct (map q_id f)) CBT_FLOWS
   \<and> calculate_completion_percentage ''stress'' (zip (map q_id stress_flow) (replicate 35 ''answer''))
       = 125"
  by (simp add: CBT_FLOWS_def CBT_CONFIG_def stress_flow_length anxiety_flow_length
      lowMood_flow_length stress_flow_ids anxiety_flow_ids lowMood_flow_ids expected_counts_def
      calculate_completion_percentage_def dict_get_def full_stress_percentage)

section \<open>Question styling keeps the question\<close>

text \<open>
  C7. Whatever index the generator draws, \<^verbatim>\<open>_style_question_with_personality\<close> returns a
  string that ends with the question text: for extraversion and for conscientiousness one of
  the four lead-in phrases of that personality, a space and the question text; for every
  other personality, the neutral one among them, the question text itself.
\<close>

theorem style_question_with_personality_suffix:
  "\<exists>styled. style_question_with_personality r personality question_text = Inr styled
     \<and> suffix question_text styled
     \<and> (personality = ''extraversion'' \<longrightarrow>
          (\<exists>i < 4. styled = extraversion_intros ! i @ '' '' @ question_text))
     \<and> (personality = ''conscientiousness'' \<longrightarrow>
          (\<exists>i < 4. styled = conscientiousness_intros ! i @ '' '' @ question_text))
     \<and> (personality \<noteq> ''extraversion'' \<and> personality \<noteq> ''conscientiousness'' \<longrightarrow>
          styled = question_text)"
proof -
  have le: "length extraversion_intros = 4" and lc: "length conscientiousness_intros = 4"
    by (simp_all add: extraversion_intros_def conscientiousness_intros_def)
  have m: "r mod 4 < 4" by simp
  consider "personality = ''extraversion''" | "personality = ''conscientiousness''"
    | "personality \<noteq> ''extraversion'' \<and> personality \<noteq> ''conscientiousness''" by blast
  then show ?thesis
  proof cases
    case 1
    have ne: "extraversion_intros \<noteq> []" using le by auto
    show ?thesis using 1 m ne
      by (auto simp: style_question_with_personality_def random_choice_def and_then_def le
          suffix_def intro!: exI[of _ "r mod 4"])
  next
    case 2
    have ne: "conscientiousness_intros \<noteq> []" using lc by auto
    show ?thesis using 2 m ne
      by (auto simp: style_question_with_personality_def random_choice_def and_then_def lc
          suffix_def intro!: exI[of _ "r mod 4"])
  next
    case 3
    then show ?thesis by (simp add: style_question_with_personality_def)
  qed
qed

theorem style_question_with_personality_suffix_witness:
  "style_question_with_personality 6 ''extraversion'' ''X?''
     = Inr ''Okay, let's get to the next exciting bit! X?''
   \<and> suffix ''X?'' ''Okay, let's get to the next exciting bit! X?''
   \<and> style_question_with_personality 6 ''neutral'' ''X?'' = Inr ''X?''"
  using style_question_with_personality_suffix [of 6 "''extraversion''" "''X?''"]
    style_question_with_personality_suffix [of 6 "''neutral''" "''X?''"]
  by (simp add: style_question_with_personality_def random_choice_def and_then_def
      extraversion_intros_def suffix_def)

section \<open>Readability without a sentence end\<close>

text \<open>
  C10. For a text without any of the characters \<^verbatim>\<open>.\<close>, \<^verbatim>\<open>!\<close> and \<^verbatim>\<open>?\<close> the split on
  \<^verbatim>\<open>[.!?]+\<close> returns the text as its only piece, so the sentence count of the analysis, the
  number of pieces minus one, is 0 and the readability score is 0. The text may be empty.
\<close>

theorem calculate_readability_no_sentence_end:
  assumes "\<forall>c \<in> set response. c \<notin> set ''.!?''"
  shows "re_split sentence_end response = [response]
         \<and> sentence_count (analyze_response_quality response category) = 0
         \<and> readability_score (analyze_response_quality response category) = 0
         \<and> calculate_readability response = 0"
proof -
  have "re_split sentence_end response = [response]"
    using assms re_split_from_no_sep [of response sentence_end False "[]"]
    by (simp add: re_split_def sentence_end_def)
  then show ?thesis
    by (simp add: analyze_response_quality_def calculate_readability_def analysis.extend_def)
qed

theorem calculate_readability_no_sentence_end_witness:
  "sentence_count (analyze_response_quality ''I felt calm today'' ''Emotions'') = 0
   \<and> readability_score (analyze_response_quality ''I felt calm today'' ''Emotions'') = 0"
  using calculate_readability_no_sentence_end [of "''I felt calm today''" "''Emotions''"]
  by simp

section \<open>The minimal-reply branch of the validator\<close>

lemma check_engagement_level_three_words:
  "3 \<le> length (split response) \<Longrightarrow>
   snd (check_engagement_level response)
     \<noteq> Some ''Please provide a more detailed response to help us understand your experience better.''"
  by (simp add: check_engagement_level_def Let_def length_split_lower)

text \<open>
  C9. \<^verbatim>\<open>validate_response\<close> never returns the message of the minimal-reply branch of
  \<^verbatim>\<open>_check_engagement_level\<close>: a text of at most two words is rejected before the branch is
  reached, and on a text of three or more words the branch does not fire.
\<close>

theorem validate_response_never_minimal:
  "snd (validate_response text)
     \<noteq> Some ''Please provide a more detailed response to help us understand your experience better.''
   \<and> (length (split (strip text)) \<le> 2 \<longrightarrow> \<not> fst (validate_response text))
   \<and> (3 \<le> length (split response) \<longrightarrow>
        snd (check_engagement_level response)
          \<noteq> Some ''Please provide a more detailed response to help us understand your experience better.'')"
proof (intro conjI impI)
  show "snd (validate_response text)
     \<noteq> Some ''Please provide a more detailed response to help us understand your experience better.''"
    using check_engagement_level_three_words [of "strip text"]
    by (simp add: validate_response_def Let_def load_validation_rules_def
        check_appropriate_content_def str_nat_10 str_nat_2000 str_nat_3 str_nat_500)
next
  assume "length (split (strip text)) \<le> 2"
  then show "\<not> fst (validate_response text)"
    by (simp add: validate_response_def Let_def load_validation_rules_def)
next
  assume "3 \<le> length (split response)"
  then show "snd (check_engagement_level response)
          \<noteq> Some ''Please provide a more detailed response to help us understand your experience better.''"
    by (rule check_engagement_level_three_words)
qed

theorem validate_response_never_minimal_witness:
  "snd (validate_response ''okay    fine'')
     \<noteq> Some ''Please provide a more detailed response to help us understand your experience better.''
   \<and> \<not> fst (validate_response ''okay    fine'')
   \<and> snd (check_engagement_level ''yes yes yes'')
       \<noteq> Some ''Please provide a more detailed response to help us understand your experience better.''"
proof -
  have two: "length (split (strip ''okay    fine'')) \<le> 2"
    by code_simp
  have three: "3 \<le> length (split ''yes yes yes'')"
    by code_simp
  show ?thesis
    using validate_response_never_minimal [of "''okay    fine''" "''yes yes yes''"] two three
    by blast
qed

section \<open>The feedback of the response generator\<close>

lemma format_plain:
  "CHR ''{'' \<notin> set s \<Longrightarrow> CHR ''}'' \<notin> set s \<Longrightarrow> format_from kw Text s = Inr s"
  by (induction s) (auto simp: and_then_def)

lemma format_neutral:
  assumes "p \<in> set (response_patterns neutral_template)"
  shows "\<exists>r. str_format p [(''context'', c), (''category_context'', cc), (''insight'', i)] = Inr r"
  using assms
  by (auto simp: neutral_template_def str_format_def and_then_def dict_item_def)

lemma format_conscientiousness:
  assumes "p \<in> set (response_patterns conscientiousness_template)"
  shows "\<exists>r. str_format p kw = Inr r"
  using assms
  by (auto simp: conscientiousness_template_def str_format_def format_plain
      simp del: format_from.simps)

lemma format_extraversion:
  assumes "p \<in> set (response_patterns extraversion_template)"
  shows "\<exists>r. str_format p kw = Inr r"
  using assms
  by (auto simp: extraversion_template_def str_format_def format_plain
      simp del: format_from.simps)

lemma bank_cases:
  "dict_get load_personality_templates personality neutral_template
     \<in> {neutral_template, conscientiousness_template, extraversion_template}"
  by (simp add: dict_get_def load_personality_templates_def)

lemma bank_length:
  "t \<in> {neutral_template, conscientiousness_template, extraversion_template}
   \<Longrightarrow> length (response_patterns t) = 5"
  by (auto simp: neutral_template_def conscientiousness_template_def extraversion_template_def)

lemma py_index_in_range:
  "0 \<le> i \<Longrightarrow> i < int (length xs) \<Longrightarrow> py_index xs i = Inr (xs ! nat i)"
  by (simp add: py_index_def)

lemma format_bank:
  assumes "t \<in> {neutral_template, conscientiousness_template, extraversion_template}"
    and "p \<in> set (response_patterns t)"
  shows "\<exists>r. str_format p [(''context'', c), (''category_context'', cc), (''insight'', i)] = Inr r"
  using assms format_neutral format_conscientiousness format_extraversion by blast

lemma generate_response_pattern:
  "length (response_patterns (dict_get load_personality_templates personality neutral_template)) = 5
   \<and> generate_response personality question user_response step
       = str_format
           (response_patterns (dict_get load_personality_templates personality neutral_template)
              ! nat (step mod 5))
           [(''context'', get_category_context (q_category question) personality),
            (''category_context'', get_category_specific_insight (q_category question) personality),
            (''insight'', get_step_insight step personality)]
   \<and> (\<exists>response. generate_response personality question user_response step = Inr response)"
proof -
  let ?t = "dict_get load_personality_templates personality neutral_template"
  let ?bank = "response_patterns ?t"
  let ?kw = "[(''context'', get_category_context (q_category question) personality),
              (''category_context'', get_category_specific_insight (q_category question) personality),
              (''insight'', get_step_insight step personality)]"
  have t: "?t \<in> {neutral_template, conscientiousness_template, extraversion_template}"
    by (rule bank_cases)
  have len: "length ?bank = 5" using t by (rule bank_length)
  have ne: "?bank \<noteq> []" using len by auto
  have i0: "0 \<le> step mod int (length ?bank)" and i1: "step mod int (length ?bank) < int (length ?bank)"
    using len by simp_all
  have neutral: "dict_item load_personality_templates ''neutral'' = Inr neutral_template"
    by (simp add: dict_item_def load_personality_templates_def)
  have gen: "generate_response personality question user_response step
         = str_format (?bank ! nat (step mod int (length ?bank))) ?kw"
    using ne py_index_in_range [OF i0 i1]
    by (simp add: generate_response_def neutral and_then_def Let_def)
  have "?bank ! nat (step mod int (length ?bank)) \<in> set ?bank"
    using i0 i1 by (intro nth_mem) linarith
  then have "\<exists>r. str_format (?bank ! nat (step mod int (length ?bank))) ?kw = Inr r"
    using t by (rule format_bank [rotated])
  then show ?thesis using len gen by auto
qed

lemma generate_response_returns: "\<exists>r. generate_response p q u s = Inr r"
  using generate_response_pattern [of p q u s] by blast

text \<open>
  C6. \<^verbatim>\<open>generate_response\<close> takes the pattern at index \<open>step mod 5\<close> of the five response
  patterns of the personality (those of the neutral personality for an unknown name) and
  fills its slots. It always returns a string, and the string is a function of the
  personality, the category of the question and the step alone: the call reads no random
  number and no state, and the user's text does not enter the result.
\<close>

theorem generate_response_round_robin:
  "\<exists>bank. bank = response_patterns (dict_get load_personality_templates personality neutral_template)
     \<and> map_of load_personality_templates ''neutral'' = Some neutral_template
     \<and> length bank = 5
     \<and> generate_response personality question user_response step
         = str_format (bank ! nat (step mod int (length bank)))
             [(''context'', get_category_context (q_category question) personality),
              (''category_context'', get_category_specific_insight (q_category question) personality),
              (''insight'', get_step_insight step personality)]
     \<and> (\<exists>response. generate_response personality question user_response step = Inr response)
     \<and> generate_response personality question other_response step
         = generate_response personality question user_response step"
proof -
  let ?bank = "response_patterns (dict_get load_personality_templates personality neutral_template)"
  let ?kw = "[(''context'', get_category_context (q_category question) personality),
              (''category_context'', get_category_specific_insight (q_category question) personality),
              (''insight'', get_step_insight step personality)]"
  have neutral: "map_of load_personality_templates ''neutral'' = Some neutral_template"
    by (simp add: load_personality_templates_def)
  have len: "length ?bank = 5"
    using generate_response_pattern [of personality question user_response step] by blast
  have g: "generate_response personality question user_response step
           = str_format (?bank ! nat (step mod 5)) ?kw"
    using generate_response_pattern [of personality question user_response step] by blast
  have g': "generate_response personality question other_response step
           = str_format (?bank ! nat (step mod 5)) ?kw"
    using generate_response_pattern [of personality question other_response step] by blast
  have ex: "\<exists>response. generate_response personality question user_response step = Inr response"
    by (rule generate_response_returns)
  have "?bank = ?bank
     \<and> map_of load_personality_templates ''neutral'' = Some neutral_template
     \<and> length ?bank = 5
     \<and> generate_response personality question user_response step
         = str_format (?bank ! nat (step mod int (length ?bank))) ?kw
     \<and> (\<exists>response. generate_response personality question user_response step = Inr response)
     \<and> generate_response personality question other_response step
         = generate_response personality question user_response step"
    using neutral len g g' ex by (simp only: of_nat_numeral simp_thms)
  then show ?thesis by (rule exI [of _ ?bank])
qed

theorem generate_response_round_robin_witness:
  "(\<exists>response. generate_response ''conscientiousness''
        \<lparr>q_id = ''hot_thought'', q_text = ''What was the most painful thought?'', q_category = ''Thoughts''\<rparr>
        ''I thought I would fail'' 7 = Inr response)
   \<and> generate_response ''conscientiousness''
        \<lparr>q_id = ''hot_thought'', q_text = ''What was the most painful thought?'', q_category = ''Thoughts''\<rparr>
        ''Something else entirely'' 7
     = generate_response ''conscientiousness''
        \<lparr>q_id = ''hot_thought'', q_text = ''What was the most painful thought?'', q_category = ''Thoughts''\<rparr>
        ''I thought I would fail'' 7"
  using generate_response_round_robin [of "''conscientiousness''"
      "\<lparr>q_id = ''hot_thought'', q_text = ''What was the most painful thought?'', q_category = ''Thoughts''\<rparr>"
      "''I thought I would fail''" 7 "''Something else entirely''"]
  by blast

section \<open>Single steps of the dialogue\<close>

lemma get_current_question_at:
  assumes "current_condition s = Some c" and "c \<noteq> []" and "map_of (cbt_flows s) c = Some flow"
    and "current_step s = int k"
  shows "get_current_question s = Inr (if k < length flow then Some (flow ! k) else None)"
  using assms
  by (simp add: get_current_question_def current_flow_def dict_item_def and_then_def py_index_def)

lemma process_user_response_accept:
  assumes valid: "fst (validate_response a)"
    and c: "current_condition s = Some c" "c \<noteq> []" "map_of (cbt_flows s) c = Some flow"
    and k: "current_step s = int k" "k < length flow"
    and added: "snd (sm_add_response sm (session_manager s) (q_id (flow ! k)) (q_text (flow ! k)) a
                       (q_category (flow ! k))) = None"
  shows "\<exists>r. generate_response (current_personality s) (flow ! k) a (int k) = Inr r
           \<and> process_user_response sm s a
           = (s\<lparr>user_responses := AList.update (q_id (flow ! k)) a (user_responses s),
                 conversation_history := conversation_history s @
                   [user_message a (q_id (flow ! k)), bot_message r,
                    bot_message (if Suc k = length flow then completion_message
                                 else q_text (flow ! Suc k))],
                 session_manager :=
                   fst (sm_add_response sm (session_manager s) (q_id (flow ! k)) (q_text (flow ! k)) a
                          (q_category (flow ! k))),
                 current_step := int (Suc k)\<rparr>,
              Inr (True,
                   Some (r @ ''\<newline>\<newline>'' @ (if Suc k = length flow then completion_message
                                                   else q_text (flow ! Suc k))),
                   Suc k = length flow))"
proof -
  have q: "get_current_question s = Inr (Some (flow ! k))"
    using get_current_question_at [OF c k(1)] k(2) by simp
  obtain r where r: "generate_response (current_personality s) (flow ! k) a (int k) = Inr r"
    using generate_response_returns by blast
  have "process_user_response sm s a
           = (s\<lparr>user_responses := AList.update (q_id (flow ! k)) a (user_responses s),
                 conversation_history := conversation_history s @
                   [user_message a (q_id (flow ! k)), bot_message r,
                    bot_message (if Suc k = length flow then completion_message
                                 else q_text (flow ! Suc k))],
                 session_manager :=
                   fst (sm_add_response sm (session_manager s) (q_id (flow ! k)) (q_text (flow ! k)) a
                          (q_category (flow ! k))),
                 current_step := int (Suc k)\<rparr>,
              Inr (True,
                   Some (r @ ''\<newline>\<newline>'' @ (if Suc k = length flow then completion_message
                                                   else q_text (flow ! Suc k))),
                   Suc k = length flow))"
  proof (cases "Suc k = length flow")
    case True
    have "int k + 1 = int (length flow)" using True by simp
    then show ?thesis using valid q r k c True added
      by (simp add: process_user_response_def split_beta Let_def and_then_def
          current_flow_def dict_item_def)
  next
    case False
    then have lt: "Suc k < length flow" using k(2) by simp
    have idx: "py_index flow (int k + 1) = Inr (flow ! Suc k)"
      using lt by (simp add: py_index_def nat_add_distrib)
    show ?thesis using valid q r k c lt False idx added
      by (simp add: process_user_response_def split_beta Let_def and_then_def
          current_flow_def dict_item_def get_current_question_def)
  qed
  then show ?thesis using r by blast
qed

lemma get_welcome_message_known:
  "personality \<in> set [''neutral'', ''conscientiousness'', ''extraversion'']
   \<Longrightarrow> \<exists>w. get_welcome_message personality = Inr w"
  by (auto simp: get_welcome_message_def load_personality_templates_def dict_item_def and_then_def)

lemma start_session_known:
  assumes "map_of (cbt_flows self) condition = Some flow" and "condition \<noteq> []" and "flow \<noteq> []"
    and "current_personality self \<in> set [''neutral'', ''conscientiousness'', ''extraversion'']"
    and "snd (sm_create_session sm (session_manager self) (current_personality self) condition) = None"
  shows "\<exists>w. get_welcome_message (current_personality self) = Inr w
     \<and> start_session sm self condition
       = (self\<lparr>current_condition := Some condition, current_step := 0,
               conversation_history :=
                 [bot_message w, bot_message (get_condition_introduction condition),
                  bot_message (q_text (flow ! 0))],
               user_responses := [],
               session_manager :=
                 fst (sm_create_session sm (session_manager self) (current_personality self)
                        condition)\<rparr>,
          Inr (True, ''Started '' @ condition @ '' session with '' @ current_personality self
                     @ '' personality''))"
proof -
  obtain w where w: "get_welcome_message (current_personality self) = Inr w"
    using get_welcome_message_known [OF assms(4)] by blast
  have idx: "py_index flow 0 = Inr (flow ! 0)"
    using assms(3) by (simp add: py_index_def)
  have "start_session sm self condition
       = (self\<lparr>current_condition := Some condition, current_step := 0,
               conversation_history :=
                 [bot_message w, bot_message (get_condition_introduction condition),
                  bot_message (q_text (flow ! 0))],
               user_responses := [],
               session_manager :=
                 fst (sm_create_session sm (session_manager self) (current_personality self)
                        condition)\<rparr>,
          Inr (True, ''Started '' @ condition @ '' session with '' @ current_personality self
                     @ '' personality''))"
    using assms(1,2,3,5) w idx
    by (simp add: start_session_def Let_def get_current_question_def current_flow_def
        dict_item_def and_then_def)
  then show ?thesis using w by blast
qed

lemma valid_sample: "fst (validate_response ''I felt really anxious'')"
  by code_simp



section \<open>A rejected answer leaves the session as it was\<close>










section \<open>A full pass through a flow\<close>

lemma update_fresh: "k \<notin> fst ` set al \<Longrightarrow> AList.update k v al = al @ [(k, v)]"
  by (induction al) auto

lemma fold_update_fresh:
  "distinct (map fst kvs) \<Longrightarrow> fst ` set kvs \<inter> fst ` set al = {} \<Longrightarrow>
   fold (\<lambda>kv. AList.update (fst kv) (snd kv)) kvs al = al @ kvs"
proof (induction kvs arbitrary: al)
  case Nil
  show ?case by simp
next
  case (Cons kv kvs)
  have fresh: "fst kv \<notin> fst ` set al" using Cons.prems(2) by auto
  have "fst ` set kvs \<inter> fst ` set (al @ [kv]) = {}"
    using Cons.prems by auto
  then have "fold (\<lambda>kv. AList.update (fst kv) (snd kv)) kvs (al @ [kv]) = (al @ [kv]) @ kvs"
    using Cons.IH [of "al @ [kv]"] Cons.prems(1) by simp
  then show ?case using fresh by (simp add: update_fresh)
qed

lemma submit_all_run:
  assumes "\<forall>a \<in> set as. fst (validate_response a)"
    and "current_condition s = Some c" and "c \<noteq> []" and "map_of (cbt_flows s) c = Some flow"
    and "current_step s = int k" and "k + length as \<le> length flow"
    and "\<forall>m i t a c. snd (sm_add_response sm m i t a c) = None"
  shows "\<exists>s' rs. submit_all sm s as = (s', Inr rs)
      \<and> cbt_flows s' = cbt_flows s \<and> current_condition s' = current_condition s
      \<and> current_personality s' = current_personality s
      \<and> current_step s' = int (k + length as)
      \<and> user_responses s'
          = fold (\<lambda>kv. AList.update (fst kv) (snd kv)) (zip (map q_id (drop k flow)) as) (user_responses s)
      \<and> map fst rs = replicate (length as) True
      \<and> map (\<lambda>r. snd (snd r)) rs = map (\<lambda>i. Suc i = length flow) [k..<k + length as]"
  using assms
proof (induction as arbitrary: s k)
  case Nil
  then show ?case by simp
next
  case (Cons a as)
  have valid: "fst (validate_response a)" using Cons.prems(1) by simp
  have klt: "k < length flow" using Cons.prems(6) by simp
  have added: "snd (sm_add_response sm (session_manager s) (q_id (flow ! k)) (q_text (flow ! k)) a
                       (q_category (flow ! k))) = None"
    using Cons.prems(7) by simp
  obtain r where step: "process_user_response sm s a
           = (s\<lparr>user_responses := AList.update (q_id (flow ! k)) a (user_responses s),
                 conversation_history := conversation_history s @
                   [user_message a (q_id (flow ! k)), bot_message r,
                    bot_message (if Suc k = length flow then completion_message
                                 else q_text (flow ! Suc k))],
                 session_manager :=
                   fst (sm_add_response sm (session_manager s) (q_id (flow ! k)) (q_text (flow ! k)) a
                          (q_category (flow ! k))),
                 current_step := int (Suc k)\<rparr>,
              Inr (True,
                   Some (r @ ''\<newline>\<newline>'' @ (if Suc k = length flow then completion_message
                                                   else q_text (flow ! Suc k))),
                   Suc k = length flow))"
    using process_user_response_accept [OF valid Cons.prems(2,3,4,5) klt added] by blast
  let ?s1 = "s\<lparr>user_responses := AList.update (q_id (flow ! k)) a (user_responses s),
                 conversation_history := conversation_history s @
                   [user_message a (q_id (flow ! k)), bot_message r,
                    bot_message (if Suc k = length flow then completion_message
                                 else q_text (flow ! Suc k))],
                 session_manager :=
                   fst (sm_add_response sm (session_manager s) (q_id (flow ! k)) (q_text (flow ! k)) a
                          (q_category (flow ! k))),
                 current_step := int (Suc k)\<rparr>"
  have "\<exists>s' rs. submit_all sm ?s1 as = (s', Inr rs)
      \<and> cbt_flows s' = cbt_flows ?s1 \<and> current_condition s' = current_condition ?s1
      \<and> current_personality s' = current_personality ?s1
      \<and> current_step s' = int (Suc k + length as)
      \<and> user_responses s'
          = fold (\<lambda>kv. AList.update (fst kv) (snd kv)) (zip (map q_id (drop (Suc k) flow)) as) (user_responses ?s1)
      \<and> map fst rs = replicate (length as) True
      \<and> map (\<lambda>r. snd (snd r)) rs = map (\<lambda>i. Suc i = length flow) [Suc k..<Suc k + length as]"
    using Cons.prems by (intro Cons.IH) simp_all
  then obtain s' rs where rest: "submit_all sm ?s1 as = (s', Inr rs)"
      "cbt_flows s' = cbt_flows ?s1" "current_condition s' = current_condition ?s1"
      "current_personality s' = current_personality ?s1"
      "current_step s' = int (Suc k + length as)"
      "user_responses s'
          = fold (\<lambda>kv. AList.update (fst kv) (snd kv)) (zip (map q_id (drop (Suc k) flow)) as) (user_responses ?s1)"
      "map fst rs = replicate (length as) True"
      "map (\<lambda>r. snd (snd r)) rs = map (\<lambda>i. Suc i = length flow) [Suc k..<Suc k + length as]"
    by blast
  have drop: "drop k flow = flow ! k # drop (Suc k) flow"
    using klt by (simp add: Cons_nth_drop_Suc)
  have upt: "[k..<Suc (k + length as)] = k # [Suc k..<Suc (k + length as)]"
    by (subst upt_rec) simp
  show ?case
    using step rest by (simp add: drop upt del: upt_Suc)
qed

lemma completion_flags:
  "0 < n \<Longrightarrow> map (\<lambda>i. Suc i = n) [0..<n] = replicate (n - 1) False @ [True]"
proof -
  assume "0 < n"
  then obtain m where n: "n = Suc m" by (cases n) auto
  have "map (\<lambda>i. Suc i = Suc m) [0..<m] = map (\<lambda>i. False) [0..<m]"
    by simp
  then have "map (\<lambda>i. Suc i = Suc m) [0..<m] = replicate m False"
    by (simp add: map_replicate_const)
  then show ?thesis using n by simp
qed

text \<open>
  C2. Let the flows of the chatbot hold a non-empty flow with pairwise distinct step ids
  under a non-empty condition name, let the personality be one of the three that
  \<^verbatim>\<open>set_personality\<close> accepts, and let \<^verbatim>\<open>create_session\<close> and \<^verbatim>\<open>add_response\<close> of the
  session manager return. Then \<^verbatim>\<open>start_session\<close> succeeds and leaves a session in
  progress at step 0 without answers, and submitting one accepted answer for every step, in
  order, succeeds every time, reports completion at the last submission and at no earlier
  one, and ends at the step \<open>length flow\<close> with the session complete and the answers being
  exactly the pairs of the step ids, in the order of the flow, and the submitted texts.
\<close>

theorem round_trip:
  assumes "map_of (cbt_flows self) condition = Some flow"
    and "condition \<noteq> []" and "flow \<noteq> []" and "distinct (map q_id flow)"
    and "current_personality self \<in> set [''neutral'', ''conscientiousness'', ''extraversion'']"
    and "length answers = length flow"
    and "\<forall>a \<in> set answers. fst (validate_response a)"
    and "\<forall>m p c. snd (sm_create_session sm m p c) = None"
    and "\<forall>m i t a c. snd (sm_add_response sm m i t a c) = None"
  shows "\<exists>started msg finished results p p'.
           start_session sm self condition = (started, Inr (True, msg))
           \<and> current_step started = 0 \<and> user_responses started = []
           \<and> get_session_progress started = Inr (Some p) \<and> \<not> p_session_complete p
           \<and> submit_all sm started answers = (finished, Inr results)
           \<and> map fst results = replicate (length flow) True
           \<and> map (\<lambda>r. snd (snd r)) results = replicate (length flow - 1) False @ [True]
           \<and> current_step finished = int (length flow)
           \<and> get_session_progress finished = Inr (Some p') \<and> p_session_complete p'
           \<and> p_responses_completed p' = length flow
           \<and> user_responses finished = zip (map q_id flow) answers"
proof -
  have created: "snd (sm_create_session sm (session_manager self) (current_personality self) condition)
                   = None"
    using assms(8) by simp
  obtain w where start: "start_session sm self condition
       = (self\<lparr>current_condition := Some condition, current_step := 0,
               conversation_history :=
                 [bot_message w, bot_message (get_condition_introduction condition),
                  bot_message (q_text (flow ! 0))],
               user_responses := [],
               session_manager :=
                 fst (sm_create_session sm (session_manager self) (current_personality self)
                        condition)\<rparr>,
          Inr (True, ''Started '' @ condition @ '' session with '' @ current_personality self
                     @ '' personality''))"
    using start_session_known [OF assms(1,2,3,5) created] by blast
  let ?s0 = "self\<lparr>current_condition := Some condition, current_step := 0,
               conversation_history :=
                 [bot_message w, bot_message (get_condition_introduction condition),
                  bot_message (q_text (flow ! 0))],
               user_responses := [],
               session_manager :=
                 fst (sm_create_session sm (session_manager self) (current_personality self)
                        condition)\<rparr>"
  have n: "0 < length flow" using assms(3) by simp
  have "\<exists>s' rs. submit_all sm ?s0 answers = (s', Inr rs)
      \<and> cbt_flows s' = cbt_flows ?s0 \<and> current_condition s' = current_condition ?s0
      \<and> current_personality s' = current_personality ?s0
      \<and> current_step s' = int (0 + length answers)
      \<and> user_responses s'
          = fold (\<lambda>kv. AList.update (fst kv) (snd kv)) (zip (map q_id (drop 0 flow)) answers) (user_responses ?s0)
      \<and> map fst rs = replicate (length answers) True
      \<and> map (\<lambda>r. snd (snd r)) rs = map (\<lambda>i. Suc i = length flow) [0..<0 + length answers]"
    using assms by (intro submit_all_run [where c = condition]) simp_all
  then obtain finished results where run: "submit_all sm ?s0 answers = (finished, Inr results)"
      "cbt_flows finished = cbt_flows self" "current_condition finished = Some condition"
      "current_step finished = int (length flow)"
      "user_responses finished
          = fold (\<lambda>kv. AList.update (fst kv) (snd kv)) (zip (map q_id flow) answers) []"
      "map fst results = replicate (length flow) True"
      "map (\<lambda>r. snd (snd r)) results = map (\<lambda>i. Suc i = length flow) [0..<length flow]"
    using assms(6) by auto
  have "distinct (map fst (zip (map q_id flow) answers))"
    using assms(4,6) by simp
  then have answers: "user_responses finished = zip (map q_id flow) answers"
    using run(5) fold_update_fresh [of "zip (map q_id flow) answers" "[]"] by simp
  have flags: "map (\<lambda>r. snd (snd r)) results = replicate (length flow - 1) False @ [True]"
    using run(7) completion_flags [OF n] by simp
  have p0: "\<exists>p. get_session_progress ?s0 = Inr (Some p) \<and> \<not> p_session_complete p"
    using assms(1,2) n
    by (simp add: get_session_progress_def current_flow_def dict_item_def and_then_def Let_def)
  have p1: "\<exists>p. get_session_progress finished = Inr (Some p) \<and> p_session_complete p
             \<and> p_responses_completed p = length flow"
    using assms(1,2,6) n run(2,3,4) answers
    by (simp add: get_session_progress_def current_flow_def dict_item_def and_then_def Let_def)
  show ?thesis
    using start run(1,4,6) flags answers p0 p1 by auto
qed

theorem round_trip_witness:
  "\<exists>started msg finished results.
      start_session returning_manager (new_chatbot () CBT_FLOWS) ''anxiety'' = (started, Inr (True, msg))
      \<and> submit_all returning_manager started (replicate 31 ''I felt really anxious'') = (finished, Inr results)
      \<and> map fst results = replicate 31 True
      \<and> map (\<lambda>r. snd (snd r)) results = replicate 30 False @ [True]
      \<and> current_step finished = 31
      \<and> map fst (user_responses finished) = map q_id anxiety_flow"
proof -
  have flow: "map_of (cbt_flows (new_chatbot () CBT_FLOWS)) ''anxiety'' = Some anxiety_flow"
    by (simp add: new_chatbot_def CBT_FLOWS_def)
  have ne: "anxiety_flow \<noteq> []"
    using anxiety_flow_length by auto
  have pers: "current_personality (new_chatbot () CBT_FLOWS)
                \<in> set [''neutral'', ''conscientiousness'', ''extraversion'']"
    by (simp add: new_chatbot_def)
  have len: "length (replicate 31 ''I felt really anxious'') = length anxiety_flow"
    by (simp add: anxiety_flow_length)
  have valid: "\<forall>a \<in> set (replicate 31 ''I felt really anxious''). fst (validate_response a)"
    using valid_sample by simp
  have cond: "''anxiety'' \<noteq> []" by simp
  have created: "\<forall>m p c. snd (sm_create_session returning_manager m p c) = None"
    by (simp add: returning_manager_def returning_create_session_def)
  have added: "\<forall>m i t a c. snd (sm_add_response returning_manager m i t a c) = None"
    by (simp add: returning_manager_def returning_add_response_def)
  show ?thesis
    using round_trip [OF flow cond ne anxiety_flow_ids pers len valid created added]
    by (auto simp: anxiety_flow_length)
qed

section \<open>The journal is always rendered\<close>

lemma str_in_iff: "str_in n h \<longleftrightarrow> (\<exists>p s. h = p @ n @ s)"
proof (induction h)
  case Nil
  show ?case by simp
next
  case (Cons c h)
  show ?case
  proof
    assume "str_in n (c # h)"
    then consider "prefix n (c # h)" | "str_in n h" by auto
    then show "\<exists>p s. c # h = p @ n @ s"
    proof cases
      case 1
      then obtain s where "c # h = n @ s" by (auto simp: prefix_def)
      then have "c # h = [] @ n @ s" by simp
      then show ?thesis by blast
    next
      case 2
      then obtain p s where "h = p @ n @ s" using Cons.IH by blast
      then have "c # h = (c # p) @ n @ s" by simp
      then show ?thesis by blast
    qed
  next
    assume "\<exists>p s. c # h = p @ n @ s"
    then obtain p s where eq: "c # h = p @ n @ s" by blast
    show "str_in n (c # h)"
    proof (cases p)
      case Nil
      then have "prefix n (c # h)" using eq by (simp add: prefix_def)
      then show ?thesis by simp
    next
      case (Cons d p')
      then have "h = p' @ n @ s" using eq by simp
      then have "str_in n h" using Cons.IH by blast
      then show ?thesis by simp
    qed
  qed
qed

lemma str_in_append: "str_in n (p @ n @ s)"
  using str_in_iff by blast

lemma str_in_appendI: "str_in n h \<Longrightarrow> str_in n (p @ h @ s)"
proof -
  assume "str_in n h"
  then obtain p' s' where "h = p' @ n @ s'" using str_in_iff by blast
  then have "p @ h @ s = (p @ p') @ n @ (s' @ s)" by simp
  then show ?thesis using str_in_iff by blast
qed

lemma stress_summary_body:
  "\<exists>rest. create_stress_summary (extract_key_responses ''stress'' responses)
     = Inr (''Through this CBT exploration, you examined a stressful experience involving **''
            @ dict_get responses ''situation'' ''a challenging situation'' @ rest)"
  by (simp add: create_stress_summary_def extract_key_responses_def stress_summary_parts_def
      dict_get_def dict_item_def and_then_def)

lemma anxiety_summary_body:
  "\<exists>body. create_anxiety_summary (extract_key_responses ''anxiety'' responses) = Inr body"
  by (simp add: create_anxiety_summary_def extract_key_responses_def anxiety_summary_parts_def
      dict_get_def dict_item_def and_then_def)

lemma low_mood_summary_body:
  "\<exists>body. create_low_mood_summary (extract_key_responses ''lowMood'' responses) = Inr body"
  by (simp add: create_low_mood_summary_def extract_key_responses_def low_mood_summary_parts_def
      dict_get_def dict_item_def and_then_def)

lemma collect_categories_no_answers: "collect_categories [] questions categories = categories"
  by (induction questions arbitrary: categories) simp_all

lemma generate_summary_returns:
  "\<exists>summary. generate_summary condition responses template = Inr summary
     \<and> (condition = ''stress'' \<longrightarrow>
          (\<exists>body. create_stress_summary (extract_key_responses condition responses) = Inr body
             \<and> summary = ''## Session Summary\<newline>\<newline>'' @ body @ ''\<newline>---\<newline>\<newline>''))
     \<and> (condition = ''anxiety'' \<longrightarrow>
          (\<exists>body. create_anxiety_summary (extract_key_responses condition responses) = Inr body
             \<and> summary = ''## Session Summary\<newline>\<newline>'' @ body @ ''\<newline>---\<newline>\<newline>''))
     \<and> (condition = ''lowMood'' \<longrightarrow>
          (\<exists>body. create_low_mood_summary (extract_key_responses condition responses) = Inr body
             \<and> summary = ''## Session Summary\<newline>\<newline>'' @ body @ ''\<newline>---\<newline>\<newline>''))
     \<and> (condition = ''stress'' \<and> map_of responses ''situation'' = None \<longrightarrow>
          str_in ''a challenging situation'' summary)"
proof -
  consider "condition = ''stress''" | "condition = ''anxiety''" | "condition = ''lowMood''"
    | "condition \<noteq> ''stress'' \<and> condition \<noteq> ''anxiety'' \<and> condition \<noteq> ''lowMood''"
    by blast
  then show ?thesis
  proof cases
    case 1
    obtain rest where body: "create_stress_summary (extract_key_responses ''stress'' responses)
       = Inr (''Through this CBT exploration, you examined a stressful experience involving **''
              @ dict_get responses ''situation'' ''a challenging situation'' @ rest)"
      using stress_summary_body by blast
    have "map_of responses ''situation'' = None \<Longrightarrow>
      str_in ''a challenging situation''
        (''## Session Summary\<newline>\<newline>''
         @ (''Through this CBT exploration, you examined a stressful experience involving **''
            @ dict_get responses ''situation'' ''a challenging situation'' @ rest)
         @ ''\<newline>---\<newline>\<newline>'')"
      by (intro str_in_appendI) (simp add: dict_get_def str_in_append)
    then show ?thesis using 1 body
      by (simp add: generate_summary_def Let_def and_then_def)
  next
    case 2
    then show ?thesis using anxiety_summary_body [of responses]
      by (auto simp: generate_summary_def Let_def and_then_def)
  next
    case 3
    then show ?thesis using low_mood_summary_body [of responses]
      by (auto simp: generate_summary_def Let_def and_then_def)
  next
    case 4
    then show ?thesis by (simp add: generate_summary_def Let_def and_then_def)
  qed
qed

lemma generate_footer_returns: "\<exists>footer. generate_footer now_date personality = Inr footer"
  by (simp add: generate_footer_def footer_messages_def dict_item_def and_then_def)

lemma generate_header_nonempty: "generate_header now_long condition personality template \<noteq> []"
  by (simp add: generate_header_def)

text \<open>
  C5. For a condition that is a key of the flows of the chatbot passed in, and for every
  personality name and every dictionary of answers, \<^verbatim>\<open>create_journal\<close> returns a
  document and raises nothing. The document is not empty; it is the header, the sections of
  the answered questions (none for the empty dictionary), the summary, the reflection section
  and the footer; for each of the three conditions the summary is the f-string of the
  condition with every slot filled, by the answer or by its placeholder. For the condition
  stress and answers without the key \<^verbatim>\<open>situation\<close>, the empty dictionary among them, the
  document contains the placeholder "a challenging situation".
\<close>

theorem create_journal_complete:
  assumes "map_of (cbt_flows chatbot) condition = Some questions"
  shows "\<exists>doc sections summary footer.
      create_journal now_long now_date condition personality responses chatbot = Inr doc
    \<and> doc \<noteq> []
    \<and> doc = generate_header now_long condition personality
               (dict_get load_condition_templates condition stress_journal_template)
            @ sections @ summary @ generate_reflection_section responses @ footer
    \<and> generate_sections condition responses (cbt_flows chatbot) = Inr sections
    \<and> (responses = [] \<longrightarrow> sections = [])
    \<and> generate_summary condition responses
          (dict_get load_condition_templates condition stress_journal_template) = Inr summary
    \<and> (condition = ''stress'' \<longrightarrow>
          (\<exists>body. create_stress_summary (extract_key_responses condition responses) = Inr body
             \<and> summary = ''## Session Summary\<newline>\<newline>'' @ body @ ''\<newline>---\<newline>\<newline>''))
    \<and> (condition = ''anxiety'' \<longrightarrow>
          (\<exists>body. create_anxiety_summary (extract_key_responses condition responses) = Inr body
             \<and> summary = ''## Session Summary\<newline>\<newline>'' @ body @ ''\<newline>---\<newline>\<newline>''))
    \<and> (condition = ''lowMood'' \<longrightarrow>
          (\<exists>body. create_low_mood_summary (extract_key_responses condition responses) = Inr body
             \<and> summary = ''## Session Summary\<newline>\<newline>'' @ body @ ''\<newline>---\<newline>\<newline>''))
    \<and> generate_footer now_date personality = Inr footer
    \<and> (condition = ''stress'' \<and> map_of responses ''situation'' = None \<longrightarrow>
          str_in ''a challenging situation'' doc)"
proof -
  let ?template = "dict_get load_condition_templates condition stress_journal_template"
  let ?header = "generate_header now_long condition personality ?template"
  let ?sections = "concat (map render_category (collect_categories responses questions []))"
  have st: "dict_item load_condition_templates ''stress'' = Inr stress_journal_template"
    by (simp add: dict_item_def load_condition_templates_def)
  have sec: "generate_sections condition responses (cbt_flows chatbot) = Inr ?sections"
    using assms by (simp add: generate_sections_def dict_item_def and_then_def)
  have sec0: "responses = [] \<longrightarrow> ?sections = []"
    by (simp add: collect_categories_no_answers)
  obtain summary where sum: "generate_summary condition responses ?template = Inr summary"
    and stress: "condition = ''stress'' \<longrightarrow>
          (\<exists>body. create_stress_summary (extract_key_responses condition responses) = Inr body
             \<and> summary = ''## Session Summary\<newline>\<newline>'' @ body @ ''\<newline>---\<newline>\<newline>'')"
    and anxiety: "condition = ''anxiety'' \<longrightarrow>
          (\<exists>body. create_anxiety_summary (extract_key_responses condition responses) = Inr body
             \<and> summary = ''## Session Summary\<newline>\<newline>'' @ body @ ''\<newline>---\<newline>\<newline>'')"
    and lowMood: "condition = ''lowMood'' \<longrightarrow>
          (\<exists>body. create_low_mood_summary (extract_key_responses condition responses) = Inr body
             \<and> summary = ''## Session Summary\<newline>\<newline>'' @ body @ ''\<newline>---\<newline>\<newline>'')"
    and placeholder: "condition = ''stress'' \<and> map_of responses ''situation'' = None \<longrightarrow>
          str_in ''a challenging situation'' summary"
    using generate_summary_returns [of condition responses ?template] by blast
  obtain footer where foot: "generate_footer now_date personality = Inr footer"
    using generate_footer_returns by blast
  let ?doc = "?header @ ?sections @ summary @ generate_reflection_section responses @ footer"
  have doc: "create_journal now_long now_date condition personality responses chatbot = Inr ?doc"
    using st sec sum foot by (simp add: create_journal_def Let_def and_then_def)
  have nonempty: "?doc \<noteq> []"
    using generate_header_nonempty [of now_long condition personality ?template] by simp
  have "str_in ''a challenging situation'' summary \<Longrightarrow> str_in ''a challenging situation'' ?doc"
    using str_in_appendI [of "''a challenging situation''" summary "?header @ ?sections"
        "generate_reflection_section responses @ footer"]
    by simp
  then have contains: "condition = ''stress'' \<and> map_of responses ''situation'' = None \<longrightarrow>
          str_in ''a challenging situation'' ?doc"
    using placeholder by blast
  show ?thesis
    by (rule exI [of _ ?doc], rule exI [of _ ?sections], rule exI [of _ summary],
        rule exI [of _ footer])
      (intro conjI doc nonempty refl sec sec0 sum stress anxiety lowMood foot contains)
qed

theorem create_journal_complete_witness:
  "\<exists>doc. create_journal ''May 01, 2025 at 10:00 AM'' ''May 01, 2025'' ''stress'' ''neutral'' []
            (new_chatbot () CBT_FLOWS) = Inr doc
     \<and> doc \<noteq> [] \<and> str_in ''a challenging situation'' doc"
proof -
  have flow: "map_of (cbt_flows (new_chatbot () CBT_FLOWS)) ''stress'' = Some stress_flow"
    by (simp add: new_chatbot_def CBT_FLOWS_def)
  have none: "map_of ([] :: (string \<times> string) list) ''situation'' = None"
    by simp
  show ?thesis
    using create_journal_complete [OF flow, of "''May 01, 2025 at 10:00 AM''" "''May 01, 2025''"
        "''neutral''" "[]"] none
    by (elim exE conjE) (rule exI, intro conjI, assumption, assumption, simp)
qed

section \<open>The order of the validation rules\<close>

lemma strip_empty_iff: "strip s = [] \<longleftrightarrow> list_all isspace s"
proof
  assume "strip s = []"
  then have all: "\<forall>x \<in> set (dropWhile isspace s). isspace x"
    by (simp add: strip_def)
  have "dropWhile isspace s = []"
  proof (rule ccontr)
    assume ne: "dropWhile isspace s \<noteq> []"
    then have "\<not> isspace (hd (dropWhile isspace s))" by (rule hd_dropWhile)
    moreover have "hd (dropWhile isspace s) \<in> set (dropWhile isspace s)" using ne by simp
    ultimately show False using all by blast
  qed
  then show "list_all isspace s" by (simp add: list_all_iff)
next
  assume "list_all isspace s"
  then have "dropWhile isspace s = []" by (simp add: list_all_iff)
  then show "strip s = []" by (simp add: strip_def del: dropWhile_eq_Nil_conv)
qed

lemma diversity_ratio:
  assumes "0 < w" and "w \<le> 500"
  shows "fdiv (of_nat u) (of_nat w) < fl (3 / 10) \<longleftrightarrow> (of_nat u :: rat) / of_nat w < 3 / 10"
proof
  assume f: "fdiv (of_nat u) (of_nat w) < fl (3 / 10)"
  show "(of_nat u :: rat) / of_nat w < 3 / 10"
  proof (rule ccontr)
    assume "\<not> (of_nat u :: rat) / of_nat w < 3 / 10"
    then have "(3 / 10 :: rat) \<le> of_nat u / of_nat w" by simp
    then have "fl (3 / 10) \<le> fl (of_nat u / of_nat w)" by (intro fl_mono) simp_all
    then show False using f by (simp add: fdiv_def)
  qed
next
  assume e: "(of_nat u :: rat) / of_nat w < 3 / 10"
  have wpos: "(0::rat) < of_nat w" using assms(1) by simp
  have "(of_nat u :: rat) * 10 < 3 * of_nat w"
    using e wpos by (simp add: pos_divide_less_eq)
  then have "(of_nat (u * 10) :: rat) < of_nat (3 * w)" by simp
  then have "u * 10 < 3 * w" by (simp only: of_nat_less_iff)
  then have "u * 10 + 1 \<le> 3 * w" by simp
  then have "5000 * u \<le> 1499 * w" using assms(2) by simp
  then have "(of_nat (5000 * u) :: rat) \<le> of_nat (1499 * w)" by (simp only: of_nat_le_iff)
  then have "(of_nat u :: rat) / of_nat w \<le> 2998 / 10000"
    using wpos by (simp add: pos_divide_le_eq)
  moreover have "(0::rat) \<le> of_nat u / of_nat w" by simp
  ultimately have "fl (of_nat u / of_nat w) \<le> fl (2998 / 10000)" by (intro fl_mono)
  then show "fdiv (of_nat u) (of_nat w) < fl (3 / 10)"
    using fl_gap by (simp add: fdiv_def)
qed

lemma check_engagement_level_varied:
  assumes "3 \<le> length (split r)" and "length (split r) \<le> 500"
  shows "check_engagement_level r
     = (if 5 < length (split r)
           \<and> (of_nat (card (set (map lower (split r)))) :: rat) / of_nat (length (split r)) < 3 / 10
        then (False, Some ''Please provide a more varied response with different thoughts and details.'')
        else (True, None))"
proof -
  have pos: "0 < length (split r)" using assms(1) by linarith
  have u: "length (remdups (split (lower r))) = card (set (map lower (split r)))"
    by (simp add: split_lower length_remdups_card_conv)
  have "\<not> length (split (lower r)) \<le> 2" using assms(1) by (simp add: length_split_lower)
  then show ?thesis
    using diversity_ratio [OF pos assms(2), of "card (set (map lower (split r)))"]
    by (simp add: check_engagement_level_def Let_def u length_split_lower)
qed

lemma check_appropriate_content_eq:
  "check_appropriate_content r
     = (if list_ex (\<lambda>pattern. re_search pattern (lower r)) inappropriate_patterns
        then (False, Some (reason_message Requires_professional_support))
        else (True, None))"
  by (simp add: check_appropriate_content_def Let_def)

lemma validate_response_unfold:
  "validate_response text =
     (if text = [] \<or> strip text = [] then (False, Some (reason_message Empty))
      else if length (strip text) < 10 then (False, Some (reason_message Too_short))
      else if length (strip text) > 2000 then (False, Some (reason_message Too_long))
      else if length (split (strip text)) < 3 then (False, Some (reason_message Too_few_words))
      else if length (split (strip text)) > 500 then (False, Some (reason_message Too_many_words))
      else if \<not> fst (check_appropriate_content (strip text))
        then (False, snd (check_appropriate_content (strip text)))
      else if \<not> fst (check_engagement_level (strip text))
        then (False, snd (check_engagement_level (strip text)))
      else (True, None))"
  by (simp add: validate_response_def Let_def load_validation_rules_def
      str_nat_10 str_nat_2000 str_nat_3 str_nat_500 del: str_nat.simps)

lemma validate_spec_unfold:
  "validate_spec text =
     (if list_all isspace text then Reject Empty
      else if length (strip text) < 10 then Reject Too_short
      else if length (strip text) > 2000 then Reject Too_long
      else if length (split (strip text)) < 3 then Reject Too_few_words
      else if length (split (strip text)) > 500 then Reject Too_many_words
      else if list_ex (\<lambda>pattern. re_search pattern (lower (strip text))) inappropriate_patterns
        then Reject Requires_professional_support
      else if 5 < length (split (strip text))
              \<and> (of_nat (card (set (map lower (split (strip text))))) :: rat)
                  / of_nat (length (split (strip text))) < 3 / 10
        then Reject Needs_more_varied_response
      else Accept)"
  unfolding validate_spec_def Let_def by auto

text \<open>
  C3. \<^verbatim>\<open>validate_response\<close> is the chain of rules of the specification: for every text it
  returns what the first failing rule of \<open>validate_spec\<close> returns, with the message of that
  reason, and acceptance when no rule fails. The result is a function of the text alone.
\<close>

theorem validate_response_rules:
  "validate_response text = verdict_result (validate_spec text)"
proof -
  let ?r = "strip text"
  let ?n = "length (split ?r)"
  have empty: "(text = [] \<or> ?r = []) = list_all isspace text"
    using strip_empty_iff [of "text"] by auto
  show ?thesis
  proof (cases "3 \<le> ?n \<and> ?n \<le> 500")
    case True
    then have n: "3 \<le> ?n" "?n \<le> 500" by auto
    show ?thesis
      unfolding validate_response_unfold validate_spec_unfold empty
        check_appropriate_content_eq check_engagement_level_varied [OF n]
      by simp
  next
    case False
    then have "?n < 3 \<or> 500 < ?n" by auto
    then show ?thesis
      unfolding validate_response_unfold validate_spec_unfold empty
      by auto
  qed
qed

theorem validate_response_rules_witness:
  "validate_response ''go go go go go go''
     = (False, Some ''Please provide a more varied response with different thoughts and details.'')
   \<and> validate_spec ''go go go go go go'' = Reject Needs_more_varied_response"
proof -
  have spec: "validate_spec ''go go go go go go'' = Reject Needs_more_varied_response"
    by code_simp
  show ?thesis
    using validate_response_rules [of "''go go go go go go''"] spec by simp
qed

section \<open>The quality score\<close>

lemma fmul_commute: "fmul a b = fmul b a"
  by (simp add: fmul_def mult.commute)

lemma denominator_pos: "0 < max (fdiv (of_nat n) d) 1"
  by simp

lemma assess_emotional_depth_bounds:
  "0 \<le> assess_emotional_depth response \<and> assess_emotional_depth response \<le> 100"
  unfolding assess_emotional_depth_def Let_def
  by (rule scaled_ratio_bounds) simp_all

lemma assess_specificity_bounds:
  "0 \<le> assess_specificity response \<and> assess_specificity response \<le> 100"
  unfolding assess_specificity_def Let_def
  by (rule scaled_ratio_bounds) simp_all

lemma assess_insight_level_bounds:
  "0 \<le> assess_insight_level response \<and> assess_insight_level response \<le> 100"
  unfolding assess_insight_level_def Let_def
  by (rule scaled_ratio_bounds) simp_all

lemma assess_category_relevance_bounds:
  "0 \<le> assess_category_relevance response category
   \<and> assess_category_relevance response category \<le> 100"
proof (cases "(case map_of category_keywords category of None \<Rightarrow> [] | Some ks \<Rightarrow> ks) = []")
  case True
  then show ?thesis by (simp add: assess_category_relevance_def Let_def)
next
  case False
  then show ?thesis
    using scaled_ratio_bounds [of "of_nat (count_if (\<lambda>keyword. str_in keyword (lower response))
        (case map_of category_keywords category of None \<Rightarrow> [] | Some ks \<Rightarrow> ks))"
        "of_nat (length (case map_of category_keywords category of None \<Rightarrow> [] | Some ks \<Rightarrow> ks))"]
    by (simp add: assess_category_relevance_def Let_def)
qed

lemma calculate_readability_bounds:
  "0 \<le> calculate_readability response \<and> calculate_readability response \<le> 100"
  by (simp add: calculate_readability_def Let_def)

lemma word_count_component_bounds:
  "0 \<le> word_count_component n \<and> word_count_component n \<le> 100"
  by (simp add: word_count_component_def clamp_def)

lemma calculate_quality_score_weighted_sum:
  "calculate_quality_score a
     = weighted_sum (word_count_component (word_count a)) (emotional_depth a) (specificity_score a)
         (insight_level a) (category_relevance a)"
proof -
  have "min 100 (max 0 x) = clamp x 0 100" for x :: rat
    by (simp add: clamp_def min_def max_def)
  then show ?thesis
    by (simp add: calculate_quality_score_def weighted_sum_def word_count_component_def Let_def
        fmul_commute [of "fl (1 / 10)"] fmul_commute [of "fl (1 / 4)"]
        fmul_commute [of "fl (1 / 5)"])
qed

text \<open>
  C8. The overall quality score of the analysis is the weighted sum of the specification:
  the word-count component, clamped to 0 and 100, times 0.10, the emotional depth times 0.25,
  the specificity score times 0.20, the insight level times 0.25 and the category relevance
  times 0.20, added in this order in binary64 arithmetic. The emotional depth, the
  specificity score, the insight level, the category relevance, the readability score and the
  overall score all lie between 0 and 100.
\<close>

theorem quality_score_weighted_sum:
  "overall_quality_score (analyze_response_quality response category)
     = weighted_sum
         (word_count_component (word_count (analyze_response_quality response category)))
         (emotional_depth (analyze_response_quality response category))
         (specificity_score (analyze_response_quality response category))
         (insight_level (analyze_response_quality response category))
         (category_relevance (analyze_response_quality response category))
   \<and> word_count (analyze_response_quality response category) = length (split response)
   \<and> 0 \<le> emotional_depth (analyze_response_quality response category)
   \<and> emotional_depth (analyze_response_quality response category) \<le> 100
   \<and> 0 \<le> specificity_score (analyze_response_quality response category)
   \<and> specificity_score (analyze_response_quality response category) \<le> 100
   \<and> 0 \<le> insight_level (analyze_response_quality response category)
   \<and> insight_level (analyze_response_quality response category) \<le> 100
   \<and> 0 \<le> category_relevance (analyze_response_quality response category)
   \<and> category_relevance (analyze_response_quality response category) \<le> 100
   \<and> 0 \<le> readability_score (analyze_response_quality response category)
   \<and> readability_score (analyze_response_quality response category) \<le> 100
   \<and> 0 \<le> overall_quality_score (analyze_response_quality response category)
   \<and> overall_quality_score (analyze_response_quality response category) \<le> 100"
proof -
  let ?a = "analyze_response_quality response category"
  have fields: "word_count ?a = length (split response)"
      "emotional_depth ?a = assess_emotional_depth response"
      "specificity_score ?a = assess_specificity response"
      "insight_level ?a = assess_insight_level response"
      "category_relevance ?a = assess_category_relevance response category"
      "readability_score ?a = calculate_readability response"
    by (simp_all add: analyze_response_quality_def analysis.extend_def Let_def)
  have overall: "overall_quality_score ?a
     = weighted_sum (word_count_component (word_count ?a)) (emotional_depth ?a)
         (specificity_score ?a) (insight_level ?a) (category_relevance ?a)"
    by (simp add: analyze_response_quality_def analysis.extend_def Let_def
        scored_analysis.fields_def calculate_quality_score_weighted_sum)
  note b = assess_emotional_depth_bounds [of response] assess_specificity_bounds [of response]
    assess_insight_level_bounds [of response]
    assess_category_relevance_bounds [of response category]
    calculate_readability_bounds [of response]
    word_count_component_bounds [of "length (split response)"]
  have sum: "0 \<le> weighted_sum (word_count_component (word_count ?a)) (emotional_depth ?a)
         (specificity_score ?a) (insight_level ?a) (category_relevance ?a)
      \<and> weighted_sum (word_count_component (word_count ?a)) (emotional_depth ?a)
         (specificity_score ?a) (insight_level ?a) (category_relevance ?a) \<le> 100"
    unfolding fields
    using weighted_sum_bounds [of "word_count_component (length (split response))"
        "assess_emotional_depth response" "assess_specificity response"
        "assess_insight_level response" "assess_category_relevance response category"] b
    by (simp add: weighted_sum_def fmul_commute [of _ "fl (1 / 10)"]
        fmul_commute [of _ "fl (1 / 4)"] fmul_commute [of _ "fl (1 / 5)"])
  show ?thesis
    using overall sum b unfolding fields by simp
qed

theorem quality_score_weighted_sum_witness:
  "0 \<le> overall_quality_score (analyze_response_quality ''I felt sad. It rained today! Why?'' ''Emotions'')
   \<and> overall_quality_score (analyze_response_quality ''I felt sad. It rained today! Why?'' ''Emotions'')
       \<le> 100"
  using quality_score_weighted_sum [of "''I felt sad. It rained today! Why?''" "''Emotions''"]
  by (elim conjE) (rule conjI)

end
